theory Spec2Isabelle
  imports Main "HOL-Library.Word"
begin

section \<open>Data model of the attestation service\<close>

text \<open>
  The driver of the attestation service (package \<open>attestation\<close>) is a state machine that is
  advanced one state per timer tick. It talks to four collaborators that are not part of the
  driver: the attest client (\<open>s.attester\<close>), the store (\<open>s.server\<close>), the signer transport
  (\<open>s.signer\<close>) and the wallet (\<open>s.config.MainClient()\<close>). The model keeps the driver as it is
  written and takes the collaborators' answers during one tick as a record of functions
  (\<open>Env\<close>); every call made to a collaborator is appended to a trace of events, in the order
  in which the driver makes the calls.
\<close>

text \<open>\<open>chainhash.Hash\<close> is \<open>[32]byte\<close>; the zero value \<open>chainhash.Hash{}\<close> is \<open>0\<close>.\<close>

type_synonym Hash = "256 word"

text \<open>A Go \<open>error\<close> is kept by its message; a nil error is \<open>None\<close>.\<close>

type_synonym error = string

text \<open>\<open>time.Duration\<close> is an \<open>int64\<close> count of nanoseconds: arithmetic wraps around and
  comparisons are signed.\<close>

type_synonym Duration = "64 word"

definition Second :: Duration where
  "Second = 1000000000"

definition Minute :: Duration where
  "Minute = 60 * Second"

text \<open>An instant (\<open>time.Time\<close>) is a number of nanoseconds on the clock's axis; the zero
  \<open>time.Time\<close> is \<open>0\<close>. \<open>time.Since(t)\<close> is \<open>time.Now().Sub(t)\<close>, and \<open>Sub\<close> saturates at the
  largest and smallest \<open>Duration\<close>.\<close>

type_synonym Time = int

definition Since :: "Time \<Rightarrow> Time \<Rightarrow> Duration" where
  "Since now t =
     (let d = now - t
      in if d > 9223372036854775807 then word_of_int 9223372036854775807
         else if d < - 9223372036854775808 then word_of_int (- 9223372036854775808)
         else word_of_int d)"

text \<open>Attestation states (\<open>AttestationState\<close> and its constants).\<close>

datatype AttestationState =
    ASTATE_ERROR
  | ASTATE_INIT
  | ASTATE_NEXT_COMMITMENT
  | ASTATE_NEW_ATTESTATION
  | ASTATE_SIGN_ATTESTATION
  | ASTATE_PRE_SEND_STORE
  | ASTATE_SEND_ATTESTATION
  | ASTATE_AWAIT_CONFIRMATION
  | ASTATE_HANDLE_UNCONFIRMED

text \<open>Error and warning constants.\<close>

definition ERROR_UNSPENT_NOT_FOUND :: string where
  "ERROR_UNSPENT_NOT_FOUND = ''No valid unspent found''"

definition WARNING_INVALID_ATIME_NEW_ATTESTATION_ARG :: string where
  "WARNING_INVALID_ATIME_NEW_ATTESTATION_ARG = ''Warning - Invalid new attestation time argument''"

definition WARNING_INVALID_ATIME_HANDLE_UNCONFIRMED_ARG :: string where
  "WARNING_INVALID_ATIME_HANDLE_UNCONFIRMED_ARG = ''Warning - Invalid handle unconfirmed time argument''"

text \<open>Waiting time schedules.\<close>

definition ATIME_FIXED :: Duration where
  "ATIME_FIXED = 5 * Second"

definition ATIME_SIGS :: Duration where
  "ATIME_SIGS = 1 * Minute"

definition ATIME_CONFIRMATION :: Duration where
  "ATIME_CONFIRMATION = 15 * Minute"

definition DEFAULT_ATIME_NEW_ATTESTATION :: Duration where
  "DEFAULT_ATIME_NEW_ATTESTATION = 60 * Minute"

definition DEFAULT_ATIME_HANDLE_UNCONFIRMED :: Duration where
  "DEFAULT_ATIME_HANDLE_UNCONFIRMED = 60 * Minute"

subsection \<open>Values exchanged with the collaborators\<close>

text \<open>\<open>wire.MsgTx\<close> belongs to the btcd library. The driver never reads the contents of a
  transaction, so a transaction is an opaque payload; \<open>MsgTx []\<close> stands for the zero value
  \<open>wire.MsgTx{}\<close>. Its hash and its serialisation are library functions (see \<open>Env\<close>).\<close>

datatype MsgTx = MsgTx "8 word list"

text \<open>\<open>btcjson.ListUnspentResult\<close> and \<open>btcjson.GetTransactionResult\<close>, with the fields the
  driver or the attestation model read.\<close>

record ListUnspentResult =
  TxID :: string
  Vout :: "32 word"

record GetTransactionResult =
  BlockHash :: string
  BlockTime :: "64 word"

text \<open>The attestation key and the pay-to address are handles that the driver only passes on.\<close>

type_synonym Key = string
type_synonym Address = string

text \<open>Signatures: one bag of signatures per transaction input.\<close>

type_synonym Sigs = "8 word list list list"

text \<open>Modelled from the spec: \<open>models.Commitment\<close>, declared outside the driver's file. A
  commitment has a Merkle root and an ordered list of leaf hashes (one per client slot).\<close>

record Commitment =
  root :: Hash
  leaves :: "Hash list"

text \<open>Modelled from the spec: \<open>Commitment.GetCommitmentHash\<close>, the Merkle root of the
  commitment.\<close>

definition GetCommitmentHash :: "Commitment \<Rightarrow> Hash" where
  "GetCommitmentHash c = root c"

text \<open>Modelled from the spec: \<open>models.AttestationInfo\<close>, the block-inclusion metadata of an
  attestation (block hash, time).\<close>

record AttestationInfo =
  InfoBlockhash :: string
  InfoTime :: "64 word"

text \<open>Modelled from the spec: \<open>models.Attestation\<close>, declared outside the driver's file. An
  attestation has a txid, a raw transaction, a confirmed flag, block-inclusion metadata and
  the commitment it is bound to (a pointer, nil for the default attestation). The driver
  reads and writes the fields \<open>Txid\<close>, \<open>Tx\<close> and \<open>Confirmed\<close>.\<close>

record Attestation =
  Txid :: Hash
  Tx :: MsgTx
  Confirmed :: bool
  Info :: AttestationInfo
  commitment :: "Commitment option"

text \<open>Modelled from the spec: \<open>models.NewAttestation\<close>, a fresh attestation for a txid, bound
  to a commitment: no transaction yet, not confirmed, no block metadata.\<close>

definition NewAttestation :: "Hash \<Rightarrow> Commitment option \<Rightarrow> Attestation" where
  "NewAttestation txid c =
     \<lparr>Txid = txid, Tx = MsgTx [], Confirmed = False,
      Info = \<lparr>InfoBlockhash = [], InfoTime = 0\<rparr>, commitment = c\<rparr>"

text \<open>Modelled from the spec: \<open>models.NewAttestationDefault\<close>, the default attestation, with
  the zero txid and no commitment.\<close>

definition NewAttestationDefault :: Attestation where
  "NewAttestationDefault = NewAttestation 0 None"

text \<open>Modelled from the spec: \<open>Attestation.CommitmentHash\<close>, the root of the commitment the
  attestation is bound to; the zero hash for the default attestation, which has none.\<close>

definition CommitmentHash :: "Attestation \<Rightarrow> Hash" where
  "CommitmentHash a = (case commitment a of None \<Rightarrow> 0 | Some c \<Rightarrow> GetCommitmentHash c)"

text \<open>Modelled from the spec: \<open>Attestation.SetCommitment\<close>, which binds the attestation to a
  commitment.\<close>

definition SetCommitment :: "Commitment option \<Rightarrow> Attestation \<Rightarrow> Attestation" where
  "SetCommitment c a = a\<lparr>commitment := c\<rparr>"

text \<open>Modelled from the spec: \<open>Attestation.UpdateInfo\<close>, which copies the block metadata of the
  wallet's transaction result. The result is a pointer that \<open>UpdateInfo\<close> reads: the callers
  below give the nil case.\<close>

definition UpdateInfo :: "GetTransactionResult \<Rightarrow> Attestation \<Rightarrow> Attestation" where
  "UpdateInfo tx a = a\<lparr>Info := \<lparr>InfoBlockhash = BlockHash tx, InfoTime = BlockTime tx\<rparr>\<rparr>"

subsection \<open>Events\<close>

text \<open>One event per call to a collaborator and per log line (a \<open>Printf\<close> line is kept by
  its format). \<open>CloneBytes\<close> of a hash is the 32 bytes of the hash, so the signer events carry
  the hash. The event of a store update carries the store's answer as well: the attestation
  is persisted when the answer is nil.\<close>

datatype Event =
    Log string
  | EvGetUnconfirmedTx
  | EvFindLastUnspent
  | EvFindTopupUnspent
  | EvGetNextAttestationKey Hash
  | EvGetNextAttestationAddr Key Hash
  | EvImportAttestationAddr Address
  | EvCreateAttestation Address "ListUnspentResult list"
  | EvSignAttestation MsgTx Sigs Hash
  | EvSendAttestation MsgTx
  | EvBumpAttestationFees MsgTx
  | EvResetFee bool
  | EvGetAttestationCommitment Hash "bool list"
  | EvGetClientCommitment
  | EvGetLatestAttestationCommitmentHash "bool list"
  | EvUpdateLatestAttestation Attestation "error option"
  | EvSendConfirmedHash Hash
  | EvSendNewHash Hash
  | EvSendNewTx "8 word list"
  | EvGetSigs
  | EvGetRawTransaction Hash
  | EvGetTransaction Hash

subsection \<open>The collaborators during one tick\<close>

text \<open>
  Each field is what the collaborator answers when the driver calls it during the tick (the
  driver calls each collaborator's operation at most once per tick). The last four fields
  are the library's parser of hashes, the hash and the serialisation of a transaction, and
  the clock, whose \<open>k\<close>-th reading in the tick is \<open>Now k\<close>. A Go pair \<open>(value, error)\<close> is a pair whose second component is the
  error; a returned pointer or interface value is an option, \<open>None\<close> for nil.
  \<open>GetAttestationCommitment\<close> and \<open>GetLatestAttestationCommitmentHash\<close> are variadic in their
  \<open>confirmed\<close> flag, given here as a list. \<open>bumpAttestationFees\<close> changes the transaction it is
  given in place and returns an error: its answer is the changed transaction and the error.
  \<open>GetRawTransaction\<close> returns a \<open>*btcutil.Tx\<close> that the driver reads through \<open>MsgTx()\<close>: its
  answer is the transaction inside, \<open>None\<close> when a pointer on the way is nil.
\<close>

record Env =
  getUnconfirmedTx :: "bool \<times> Hash \<times> error option"
  findLastUnspent :: "bool \<times> ListUnspentResult \<times> error option"
  findTopupUnspent :: "bool \<times> ListUnspentResult \<times> error option"
  GetNextAttestationKey :: "Hash \<Rightarrow> Key \<times> error option"
  GetNextAttestationAddr :: "Key \<Rightarrow> Hash \<Rightarrow> Address option \<times> error option"
  ImportAttestationAddr :: "Address \<Rightarrow> error option"
  createAttestation :: "Address \<Rightarrow> ListUnspentResult list \<Rightarrow> MsgTx option \<times> error option"
  signAttestation :: "MsgTx \<Rightarrow> Sigs \<Rightarrow> Hash \<Rightarrow> MsgTx option \<times> error option"
  sendAttestation :: "MsgTx \<Rightarrow> Hash \<times> error option"
  bumpAttestationFees :: "MsgTx \<Rightarrow> MsgTx \<times> error option"
  GetAttestationCommitment :: "Hash \<Rightarrow> bool list \<Rightarrow> Commitment \<times> error option"
  GetClientCommitment :: "Commitment \<times> error option"
  GetLatestAttestationCommitmentHash :: "bool list \<Rightarrow> Hash \<times> error option"
  UpdateLatestAttestation :: "Attestation \<Rightarrow> error option"
  GetSigs :: Sigs
  GetRawTransaction :: "Hash \<Rightarrow> MsgTx option \<times> error option"
  GetTransaction :: "Hash \<Rightarrow> GetTransactionResult option \<times> error option"
  NewHashFromStr :: "string \<Rightarrow> Hash option \<times> error option"
  TxHash :: "MsgTx \<Rightarrow> Hash"
  Serialize :: "MsgTx \<Rightarrow> 8 word list"
  Now :: "nat \<Rightarrow> Time"

subsection \<open>The service and the package variables\<close>

text \<open>\<open>AttestService\<close> keeps the fields of the struct that the driver changes (the other
  fields are the handles to the collaborators). \<open>Proc\<close> adds the package-level variables
  \<open>atimeNewAttestation\<close>, \<open>atimeHandleUnconfirmed\<close>, \<open>attestDelay\<close> and \<open>confirmTime\<close>, and the
  trace of events observed so far.\<close>

record AttestService =
  state :: AttestationState
  attestation :: Attestation
  errorState :: "error option"
  isRegtest :: bool

record Proc = AttestService +
  atimeNewAttestation :: Duration
  atimeHandleUnconfirmed :: Duration
  attestDelay :: Duration
  confirmTime :: Time
  trace :: "Event list"

text \<open>A handler either returns, or the goroutine panics on a nil pointer; both carry the
  process as it is at that point.\<close>

datatype Outcome = Return Proc | Panic Proc

definition emit :: "Event \<Rightarrow> Proc \<Rightarrow> Proc" where
  "emit e s = s\<lparr>trace := trace s @ [e]\<rparr>"

definition logmsg :: "string \<Rightarrow> Proc \<Rightarrow> Proc" where
  "logmsg m s = emit (Log m) s"

section \<open>The driver\<close>

text \<open>\<open>setFailure\<close>: check if there is an error and set the error state.\<close>

definition setFailure :: "error option \<Rightarrow> Proc \<Rightarrow> bool \<times> Proc" where
  "setFailure err s =
     (case err of
        Some e \<Rightarrow> (True, s\<lparr>errorState := Some e, state := ASTATE_ERROR\<rparr>)
      | None \<Rightarrow> (False, s))"

text \<open>\<open>ASTATE_ERROR\<close>: print the error state and re-initiate the attestation.\<close>

definition doStateError :: "Proc \<Rightarrow> Proc" where
  "doStateError s0 =
     (let s1 = logmsg ''*AttestService* ATTESTATION SERVICE FAILURE'' s0;
          s2 = logmsg (case errorState s1 of None \<Rightarrow> ''<nil>'' | Some e \<Rightarrow> e) s1
      in s2\<lparr>state := ASTATE_INIT\<rparr>)"

text \<open>Part of \<open>ASTATE_INIT\<close>: an unconfirmed transaction is found in the mempool.\<close>

definition stateInitUnconfirmed :: "Env \<Rightarrow> Hash \<Rightarrow> Proc \<Rightarrow> Outcome" where
  "stateInitUnconfirmed env unconfirmedTxid s0 =
     (let (commitment, commitmentErr) = GetAttestationCommitment env unconfirmedTxid [False];
          s1 = emit (EvGetAttestationCommitment unconfirmedTxid [False]) s0;
          (failed, s2) = setFailure commitmentErr s1
      in if failed then Return s2
         else
           let s3 = logmsg ''********** found unconfirmed attestation: %s'' s2;
               s4 = s3\<lparr>attestation := NewAttestation unconfirmedTxid (Some commitment)\<rparr>;
               (rawTx, _) = GetRawTransaction env unconfirmedTxid;
               s5 = emit (EvGetRawTransaction unconfirmedTxid) s4
           in case rawTx of
                None \<Rightarrow> Panic s5
              | Some tx \<Rightarrow>
                  Return (s5\<lparr>attestation := (attestation s5)\<lparr>Tx := tx\<rparr>,
                             state := ASTATE_AWAIT_CONFIRMATION,
                             confirmTime := Now env 0\<rparr>))"

text \<open>Part of \<open>ASTATE_INIT\<close>: an unspent transaction is found in the wallet. The last
  three statements of the source function, which both branches reach, are
  \<open>stateInitUnspent_finish\<close>.\<close>

definition stateInitUnspent_finish :: "Proc \<Rightarrow> Proc" where
  "stateInitUnspent_finish s0 =
     (let confirmedHash = CommitmentHash (attestation s0);
          s1 = emit (EvSendConfirmedHash confirmedHash) s0
      in s1\<lparr>state := ASTATE_NEXT_COMMITMENT\<rparr>)"

definition stateInitUnspent :: "Env \<Rightarrow> ListUnspentResult \<Rightarrow> Proc \<Rightarrow> Outcome" where
  "stateInitUnspent env unspent s0 =
     (let (unspentTxidPtr, _) = NewHashFromStr env (TxID unspent)
      in case unspentTxidPtr of
           None \<Rightarrow> Panic s0
         | Some unspentTxid \<Rightarrow>
             let (commitment, commitmentErr) = GetAttestationCommitment env unspentTxid [];
                 s1 = emit (EvGetAttestationCommitment unspentTxid []) s0;
                 (failed, s2) = setFailure commitmentErr s1
             in if failed then Return s2
                else if GetCommitmentHash commitment \<noteq> 0 then
                  (let s3 = logmsg ''********** found confirmed attestation: %s'' s2;
                      s4 = s3\<lparr>attestation := NewAttestation unspentTxid (Some commitment)\<rparr>;
                      s5 = s4\<lparr>attestation := (attestation s4)\<lparr>Confirmed := True\<rparr>\<rparr>;
                      (rawTx, _) = GetRawTransaction env unspentTxid;
                      s6 = emit (EvGetRawTransaction unspentTxid) s5;
                      (walletTx, _) = GetTransaction env unspentTxid;
                      s7 = emit (EvGetTransaction unspentTxid) s6
                  in case rawTx of
                       None \<Rightarrow> Panic s7
                     | Some tx \<Rightarrow>
                         let s8 = s7\<lparr>attestation := (attestation s7)\<lparr>Tx := tx\<rparr>\<rparr>
                         in (case walletTx of
                              None \<Rightarrow> Panic s8
                            | Some wtx \<Rightarrow>
                                let s9 = s8\<lparr>attestation := UpdateInfo wtx (attestation s8)\<rparr>;
                                    errUpdate = UpdateLatestAttestation env (attestation s9);
                                    s10 = emit (EvUpdateLatestAttestation (attestation s9) errUpdate) s9;
                                    (failed2, s11) = setFailure errUpdate s10
                                in if failed2 then Return s11
                                   else Return (stateInitUnspent_finish s11)))
                else
                  let s3 = logmsg ''********** found unspent transaction, initiating staychain'' s2;
                      s4 = s3\<lparr>attestation := NewAttestationDefault\<rparr>
                  in Return (stateInitUnspent_finish s4))"

text \<open>Part of \<open>ASTATE_INIT\<close>: neither an unconfirmed nor an unspent transaction is found.\<close>

definition stateInitWalletFailure :: "Proc \<Rightarrow> Proc" where
  "stateInitWalletFailure s0 =
     (let s1 = logmsg ''********** wallet failure'' s0
      in s1\<lparr>state := ASTATE_INIT\<rparr>)"

text \<open>\<open>ASTATE_INIT\<close>.\<close>

definition doStateInit :: "Env \<Rightarrow> Proc \<Rightarrow> Outcome" where
  "doStateInit env s0 =
     (let s1 = logmsg ''*AttestService* INITIATING ATTESTATION PROCESS'' s0;
          (unconfirmed, unconfirmedTxid, unconfirmedErr) = getUnconfirmedTx env;
          s2 = emit EvGetUnconfirmedTx s1;
          (failed, s3) = setFailure unconfirmedErr s2
      in if failed then Return s3
         else if unconfirmed then stateInitUnconfirmed env unconfirmedTxid s3
         else
           let (success, unspent, unspentErr) = findLastUnspent env;
               s4 = emit EvFindLastUnspent s3;
               (failed2, s5) = setFailure unspentErr s4
           in if failed2 then Return s5
              else if success then stateInitUnspent env unspent s5
              else Return (stateInitWalletFailure s5))"

text \<open>\<open>ASTATE_NEXT_COMMITMENT\<close>.\<close>

definition doStateNextCommitment :: "Env \<Rightarrow> Proc \<Rightarrow> Proc" where
  "doStateNextCommitment env s0 =
     (let s1 = logmsg ''*AttestService* NEW ATTESTATION COMMITMENT'' s0;
          (latestCommitment, latestErr) = GetClientCommitment env;
          s2 = emit EvGetClientCommitment s1;
          (failed, s3) = setFailure latestErr s2
      in if failed then s3
         else
           let latestCommitmentHash = GetCommitmentHash latestCommitment;
               s4 = logmsg ''********** received commitment hash: %s'' s3
           in if latestCommitmentHash = CommitmentHash (attestation s4) then
                let s5 = logmsg ''********** Skipping attestation - Client commitment already attested'' s4
                in s5\<lparr>attestDelay := atimeNewAttestation s5\<rparr>
              else
                let s5 = emit (EvSendNewHash latestCommitmentHash) s4;
                    s6 = s5\<lparr>attestation := NewAttestationDefault\<rparr>;
                    s7 = s6\<lparr>attestation := SetCommitment (Some latestCommitment) (attestation s6)\<rparr>
                in s7\<lparr>state := ASTATE_NEW_ATTESTATION\<rparr>)"

text \<open>\<open>ASTATE_NEW_ATTESTATION\<close>. The pay-to address is an interface value whose error is
  dropped and whose \<open>String()\<close> is logged next: a nil address panics there.\<close>

definition doStateNewAttestation :: "Env \<Rightarrow> Proc \<Rightarrow> Outcome" where
  "doStateNewAttestation env s0 =
     (let s1 = logmsg ''*AttestService* NEW ATTESTATION'' s0;
          (key, keyErr) = GetNextAttestationKey env (CommitmentHash (attestation s1));
          s2 = emit (EvGetNextAttestationKey (CommitmentHash (attestation s1))) s1;
          (failed, s3) = setFailure keyErr s2
      in if failed then Return s3
         else
           let (paytoaddrPtr, _) = GetNextAttestationAddr env key (CommitmentHash (attestation s3));
               s4 = emit (EvGetNextAttestationAddr key (CommitmentHash (attestation s3))) s3
           in case paytoaddrPtr of
                None \<Rightarrow> Panic s4
              | Some paytoaddr \<Rightarrow>
                  let s5 = logmsg ''********** importing pay-to addr: %s ...'' s4;
                      importErr = ImportAttestationAddr env paytoaddr;
                      s6 = emit (EvImportAttestationAddr paytoaddr) s5;
                      (failed2, s7) = setFailure importErr s6
                  in if failed2 then Return s7
                     else
                       let (success, unspent, unspentErr) = findLastUnspent env;
                           s8 = emit EvFindLastUnspent s7;
                           (failed3, s9) = setFailure unspentErr s8
                       in if failed3 then Return s9
                          else if success then
                            let unspentList = [unspent];
                                (topupFound, topupUnspent, topupUnspentErr) = findTopupUnspent env;
                                s10 = emit EvFindTopupUnspent s9;
                                (failed4, s11) = setFailure topupUnspentErr s10
                            in if failed4 then Return s11
                               else
                                 let unspentList2 =
                                       (if topupFound then unspentList @ [topupUnspent]
                                        else unspentList);
                                     (newTx, createErr) = createAttestation env paytoaddr unspentList2;
                                     s12 = emit (EvCreateAttestation paytoaddr unspentList2) s11;
                                     (failed5, s13) = setFailure createErr s12
                                 in if failed5 then Return s13
                                    else
                                      case newTx of
                                        None \<Rightarrow> Panic s13
                                      | Some tx \<Rightarrow>
                                          let s14 = s13\<lparr>attestation := (attestation s13)\<lparr>Tx := tx\<rparr>\<rparr>;
                                              s15 = logmsg ''********** pre-sign txid: %s'' s14;
                                              s16 = emit (EvSendNewTx (Serialize env (Tx (attestation s15)))) s15
                                          in Return (s16\<lparr>state := ASTATE_SIGN_ATTESTATION,
                                                          attestDelay := ATIME_SIGS\<rparr>)
                          else Return (snd (setFailure (Some ERROR_UNSPENT_NOT_FOUND) s9)))"

text \<open>\<open>ASTATE_SIGN_ATTESTATION\<close>. The loop over the signatures logs one line per input.\<close>

definition doStateSignAttestation :: "Env \<Rightarrow> Proc \<Rightarrow> Outcome" where
  "doStateSignAttestation env s0 =
     (let s1 = logmsg ''*AttestService* SIGN ATTESTATION'' s0;
          sigs = GetSigs env;
          s2 = emit EvGetSigs s1;
          s3 = s2\<lparr>trace := trace s2 @
                 map (\<lambda>sigForInput. Log ''********** received %d signatures for input %d '') sigs\<rparr>;
          (lastCommitmentHash, latestErr) = GetLatestAttestationCommitmentHash env [];
          s4 = emit (EvGetLatestAttestationCommitmentHash []) s3;
          (failed, s5) = setFailure latestErr s4
      in if failed then Return s5
         else
           let (signedTx, signErr) = signAttestation env (Tx (attestation s5)) sigs lastCommitmentHash;
               s6 = emit (EvSignAttestation (Tx (attestation s5)) sigs lastCommitmentHash) s5;
               (failed2, s7) = setFailure signErr s6
           in if failed2 then Return s7
              else
                case signedTx of
                  None \<Rightarrow> Panic s7
                | Some tx \<Rightarrow>
                    let s8 = s7\<lparr>attestation := (attestation s7)\<lparr>Tx := tx\<rparr>\<rparr>;
                        s9 = s8\<lparr>attestation := (attestation s8)\<lparr>Txid := TxHash env (Tx (attestation s8))\<rparr>\<rparr>
                    in Return (s9\<lparr>state := ASTATE_PRE_SEND_STORE\<rparr>))"

text \<open>\<open>ASTATE_PRE_SEND_STORE\<close>: store the unconfirmed attestation prior to sending.\<close>

definition doStatePreSendStore :: "Env \<Rightarrow> Proc \<Rightarrow> Proc" where
  "doStatePreSendStore env s0 =
     (let s1 = logmsg ''*AttestService* PRE SEND STORE'' s0;
          errUpdate = UpdateLatestAttestation env (attestation s1);
          s2 = emit (EvUpdateLatestAttestation (attestation s1) errUpdate) s1;
          (failed, s3) = setFailure errUpdate s2
      in if failed then s3
         else s3\<lparr>state := ASTATE_SEND_ATTESTATION\<rparr>)"

text \<open>\<open>ASTATE_SEND_ATTESTATION\<close>: send the transaction through the client to the network.\<close>

definition doStateSendAttestation :: "Env \<Rightarrow> Proc \<Rightarrow> Proc" where
  "doStateSendAttestation env s0 =
     (let s1 = logmsg ''*AttestService* SEND ATTESTATION'' s0;
          (txid, attestationErr) = sendAttestation env (Tx (attestation s1));
          s2 = emit (EvSendAttestation (Tx (attestation s1))) s1;
          (failed, s3) = setFailure attestationErr s2
      in if failed then s3
         else
           let s4 = s3\<lparr>attestation := (attestation s3)\<lparr>Txid := txid\<rparr>\<rparr>;
               s5 = logmsg ''********** attestation transaction committed with txid: (%s)'' s4
           in s5\<lparr>state := ASTATE_AWAIT_CONFIRMATION,
                 attestDelay := ATIME_CONFIRMATION,
                 confirmTime := Now env 0\<rparr>)"

text \<open>\<open>ASTATE_AWAIT_CONFIRMATION\<close>. The clock is read once for the check of
  \<open>atimeHandleUnconfirmed\<close> and once more for the new delay.\<close>

definition doStateAwaitConfirmation :: "Env \<Rightarrow> Proc \<Rightarrow> Outcome" where
  "doStateAwaitConfirmation env s0 =
     (let s1 = logmsg ''*AttestService* AWAITING CONFIRMATION txid: (%s) commitment: (%s)'' s0
      in if atimeHandleUnconfirmed s1 <s Since (Now env 0) (confirmTime s1) then
           Return (s1\<lparr>state := ASTATE_HANDLE_UNCONFIRMED\<rparr>)
         else
           let (newTxPtr, err) = GetTransaction env (Txid (attestation s1));
               s2 = emit (EvGetTransaction (Txid (attestation s1))) s1;
               (failed, s3) = setFailure err s2
           in if failed then Return s3
              else
                case newTxPtr of
                  None \<Rightarrow> Panic s3
                | Some newTx \<Rightarrow>
                    if BlockHash newTx \<noteq> [] then
                      let s4 = logmsg ''********** attestation confirmed with txid: (%s)'' s3;
                          s5 = s4\<lparr>attestation := (attestation s4)\<lparr>Confirmed := True\<rparr>\<rparr>;
                          s6 = s5\<lparr>attestation := UpdateInfo newTx (attestation s5)\<rparr>;
                          errUpdate = UpdateLatestAttestation env (attestation s6);
                          s7 = emit (EvUpdateLatestAttestation (attestation s6) errUpdate) s6;
                          (failed2, s8) = setFailure errUpdate s7
                      in if failed2 then Return s8
                         else
                           let s9 = emit (EvResetFee (isRegtest s8)) s8;
                               confirmedHash = CommitmentHash (attestation s9);
                               s10 = emit (EvSendConfirmedHash confirmedHash) s9
                           in Return (s10\<lparr>state := ASTATE_NEXT_COMMITMENT,
                                           attestDelay := atimeNewAttestation s10
                                                          - Since (Now env 1) (confirmTime s10)\<rparr>)
                    else Return (s3\<lparr>attestDelay := ATIME_CONFIRMATION\<rparr>))"

text \<open>\<open>ASTATE_HANDLE_UNCONFIRMED\<close>: bump the fees and publish the transaction again. The
  fees are bumped through a pointer to the attestation's transaction, so the transaction is
  the changed one whether or not the call returns an error.\<close>

definition doStateHandleUnconfirmed :: "Env \<Rightarrow> Proc \<Rightarrow> Proc" where
  "doStateHandleUnconfirmed env s0 =
     (let s1 = logmsg ''*AttestService* HANDLE UNCONFIRMED'' s0;
          s2 = logmsg ''********** bumping fees for attestation txid: %s'' s1;
          (currentTx, bumpErr) = bumpAttestationFees env (Tx (attestation s2));
          s3 = emit (EvBumpAttestationFees (Tx (attestation s2))) s2;
          s4 = s3\<lparr>attestation := (attestation s3)\<lparr>Tx := currentTx\<rparr>\<rparr>;
          (failed, s5) = setFailure bumpErr s4
      in if failed then s5
         else
           let s6 = s5\<lparr>attestation := (attestation s5)\<lparr>Tx := currentTx\<rparr>\<rparr>;
               s7 = logmsg ''********** new pre-sign txid: %s'' s6;
               s8 = emit (EvSendNewTx (Serialize env (Tx (attestation s7)))) s7
           in s8\<lparr>state := ASTATE_SIGN_ATTESTATION, attestDelay := ATIME_SIGS\<rparr>)"

text \<open>The main method of the service: one tick of the state machine.\<close>

definition doAttestation :: "Env \<Rightarrow> Proc \<Rightarrow> Outcome" where
  "doAttestation env s0 =
     (let s1 = s0\<lparr>attestDelay := ATIME_FIXED\<rparr>
      in case state s1 of
           ASTATE_ERROR \<Rightarrow> Return (doStateError s1)
         | ASTATE_INIT \<Rightarrow> doStateInit env s1
         | ASTATE_NEXT_COMMITMENT \<Rightarrow> Return (doStateNextCommitment env s1)
         | ASTATE_NEW_ATTESTATION \<Rightarrow> doStateNewAttestation env s1
         | ASTATE_SIGN_ATTESTATION \<Rightarrow> doStateSignAttestation env s1
         | ASTATE_PRE_SEND_STORE \<Rightarrow> Return (doStatePreSendStore env s1)
         | ASTATE_SEND_ATTESTATION \<Rightarrow> Return (doStateSendAttestation env s1)
         | ASTATE_AWAIT_CONFIRMATION \<Rightarrow> doStateAwaitConfirmation env s1
         | ASTATE_HANDLE_UNCONFIRMED \<Rightarrow> Return (doStateHandleUnconfirmed env s1))"

subsection \<open>The loop of \<open>Run\<close>\<close>

text \<open>
  \<open>Run\<close> loops for ever: it waits on the context and on a timer set to \<open>attestDelay\<close>. What
  the \<open>select\<close> receives at each iteration is an input of the model: \<open>CtxDone\<close> when the
  context is cancelled, \<open>TimerFired env\<close> when the timer fires and the collaborators answer
  as \<open>env\<close> during the tick. \<open>timerCase\<close> is the body of the timer case. \<open>RunLoop\<close> runs the loop
  over a finite list of these inputs and says how the goroutine stands after them: still
  waiting in the loop, returned after the cancellation, or dead after a panic.
\<close>

datatype Wake = CtxDone | TimerFired Env

datatype RunState = Waiting Proc | Stopped Proc | Crashed Proc

definition timerCase :: "Env \<Rightarrow> Proc \<Rightarrow> Outcome" where
  "timerCase env s0 =
     (case doAttestation env s0 of
        Panic s1 \<Rightarrow> Panic s1
      | Return s1 \<Rightarrow>
          let s2 = (if isRegtest s1 then s1\<lparr>attestDelay := 10 * Second\<rparr> else s1)
          in Return (logmsg ''********** sleeping for: %s ...'' s2))"

fun RunLoop :: "Wake list \<Rightarrow> Proc \<Rightarrow> RunState" where
  "RunLoop [] s = Waiting s"
| "RunLoop (CtxDone # ts) s = Stopped (logmsg ''Shutting down Attestation Service...'' s)"
| "RunLoop (TimerFired env # ts) s =
     (case timerCase env s of
        Panic s1 \<Rightarrow> Crashed s1
      | Return s1 \<Rightarrow> RunLoop ts s1)"

definition Run :: "Wake list \<Rightarrow> Proc \<Rightarrow> RunState" where
  "Run ts s = RunLoop ts (s\<lparr>attestDelay := 30 * Second\<rparr>)"

fun procOf :: "RunState \<Rightarrow> Proc" where
  "procOf (Waiting s) = s"
| "procOf (Stopped s) = s"
| "procOf (Crashed s) = s"

text \<open>The states in which the loop waits on its \<open>select\<close>, one after the other: the
  process at the top of each iteration of \<open>RunLoop\<close>.\<close>

fun RunStates :: "Wake list \<Rightarrow> Proc \<Rightarrow> Proc list" where
  "RunStates [] s = [s]"
| "RunStates (CtxDone # ts) s = [s]"
| "RunStates (TimerFired env # ts) s =
     s # (case timerCase env s of
            Panic s1 \<Rightarrow> []
          | Return s1 \<Rightarrow> RunStates ts s1)"

subsection \<open>Construction of the service\<close>

text \<open>
  The configuration the constructor reads (\<open>Timing\<close> is what \<open>config.TimingConfig()\<close>
  returns). \<open>TimingConfig\<close> has two integer fields (Go \<open>int\<close>, 64 bits wide on the 64-bit
  platforms); \<open>time.Duration(n) * time.Minute\<close> is an \<open>int64\<close> product. The attest client
  that the constructor creates is one of the collaborators of the model. The parser \<open>chainhash.NewHashFromStr\<close> of the btcd library is a
  parameter. \<open>log.Fatalf\<close> prints and exits the process: the constructor then returns no
  service. The package variables \<open>attestDelay\<close> and \<open>confirmTime\<close> have their zero values
  until \<open>Run\<close> and the handlers set them.
\<close>

record TimingConfig =
  NewAttestationMinutes :: "64 word"
  HandleUnconfirmedMinutes :: "64 word"

record Config =
  InitTx :: string
  Timing :: TimingConfig
  Regtest :: bool

datatype Startup = Fatal string | Started Proc

definition NewAttestService :: "(string \<Rightarrow> Hash option \<times> error option) \<Rightarrow> Config \<Rightarrow> Startup" where
  "NewAttestService parseHash config =
     (let (initTxHash, errInitTx) = parseHash (InitTx config)
      in if errInitTx \<noteq> None then Fatal ''Incorrect initial transaction id %s''
         else
           let t0 = [];
               newAtt = (if 0 <s NewAttestationMinutes (Timing config)
                         then NewAttestationMinutes (Timing config) * Minute
                         else DEFAULT_ATIME_NEW_ATTESTATION);
               t1 = (if 0 <s NewAttestationMinutes (Timing config) then t0
                     else t0 @ [Log WARNING_INVALID_ATIME_NEW_ATTESTATION_ARG]);
               t2 = t1 @ [Log ''Time new attestation set to: %v''];
               handleUnc = (if 0 <s HandleUnconfirmedMinutes (Timing config)
                            then HandleUnconfirmedMinutes (Timing config) * Minute
                            else DEFAULT_ATIME_HANDLE_UNCONFIRMED);
               t3 = (if 0 <s HandleUnconfirmedMinutes (Timing config) then t2
                     else t2 @ [Log WARNING_INVALID_ATIME_HANDLE_UNCONFIRMED_ARG]);
               t4 = t3 @ [Log ''Time handle unconfirmed set to: %v'']
           in Started \<lparr>state = ASTATE_INIT, attestation = NewAttestationDefault,
                       errorState = None, isRegtest = Regtest config,
                       atimeNewAttestation = newAtt, atimeHandleUnconfirmed = handleUnc,
                       attestDelay = 0, confirmTime = 0, trace = t4\<rparr>)"

text \<open>The process that an outcome carries, and whether the handler returned.\<close>

fun outProc :: "Outcome \<Rightarrow> Proc" where
  "outProc (Return s) = s"
| "outProc (Panic s) = s"

fun returned :: "Outcome \<Rightarrow> bool" where
  "returned (Return s) = True"
| "returned (Panic s) = False"

text \<open>The processes at the top of each iteration of the loop of \<open>Run\<close>, which first sets
  the delay to 30 seconds.\<close>

definition Visited :: "Wake list \<Rightarrow> Proc \<Rightarrow> Proc list" where
  "Visited ts s = RunStates ts (s\<lparr>attestDelay := 30 * Second\<rparr>)"

section \<open>Predicates on traces and processes used in the proofs\<close>

text \<open>Every broadcast in the trace comes after a store update, answered with nil, of an
  unconfirmed attestation that holds the broadcast transaction.\<close>

definition persistedBefore :: "Event list \<Rightarrow> bool" where
  "persistedBefore tr \<longleftrightarrow>
     (\<forall>j tx. j < length tr \<and> tr ! j = EvSendAttestation tx \<longrightarrow>
        (\<exists>i<j. \<exists>a. tr ! i = EvUpdateLatestAttestation a None \<and> \<not> Confirmed a \<and> Tx a = tx))"

text \<open>The same property for the events \<open>es\<close> that follow a trace in which the store has
  persisted the attestations \<open>S\<close>; \<open>updatesOf\<close> is the set of the attestations that the store
  has persisted in a trace.\<close>

fun sendsCovered :: "Attestation set \<Rightarrow> Event list \<Rightarrow> bool" where
  "sendsCovered S [] = True"
| "sendsCovered S (EvUpdateLatestAttestation a err # es) =
     sendsCovered (if err = None then insert a S else S) es"
| "sendsCovered S (EvSendAttestation tx # es) =
     ((\<exists>a\<in>S. \<not> Confirmed a \<and> Tx a = tx) \<and> sendsCovered S es)"
| "sendsCovered S (e # es) = sendsCovered S es"

definition updatesOf :: "Event list \<Rightarrow> Attestation set" where
  "updatesOf tr = {a. EvUpdateLatestAttestation a None \<in> set tr}"

text \<open>The states in which an attestation is in flight.\<close>

definition inFlight :: "AttestationState \<Rightarrow> bool" where
  "inFlight st \<longleftrightarrow>
     st = ASTATE_NEW_ATTESTATION \<or> st = ASTATE_SIGN_ATTESTATION \<or> st = ASTATE_PRE_SEND_STORE \<or>
     st = ASTATE_SEND_ATTESTATION \<or> st = ASTATE_AWAIT_CONFIRMATION \<or> st = ASTATE_HANDLE_UNCONFIRMED"

text \<open>The invariant of the driver behind the order of store update and broadcast: in
  \<open>ASTATE_SEND_ATTESTATION\<close> the store has persisted the current attestation, and an
  attestation in flight is unconfirmed.\<close>

definition driverInv :: "Proc \<Rightarrow> bool" where
  "driverInv s \<longleftrightarrow>
     persistedBefore (trace s) \<and>
     (state s = ASTATE_SEND_ATTESTATION \<longrightarrow>
        EvUpdateLatestAttestation (attestation s) None \<in> set (trace s)) \<and>
     (inFlight (state s) \<longrightarrow> \<not> Confirmed (attestation s))"

text \<open>The events with which the driver sends a message to the signers.\<close>

fun isSignerSend :: "Event \<Rightarrow> bool" where
  "isSignerSend (EvSendConfirmedHash h) = True"
| "isSignerSend (EvSendNewHash h) = True"
| "isSignerSend (EvSendNewTx b) = True"
| "isSignerSend e = False"

section \<open>An example run\<close>

text \<open>
  A configuration, a parser and collaborators for a first run of the service: the wallet
  holds the funding transaction only, the store has a client commitment with root 5 and no
  commitment for the funding transaction, and every call succeeds.
\<close>

definition exampleConfig :: Config where
  "exampleConfig =
     \<lparr>InitTx = ''0f'',
      Timing = \<lparr>NewAttestationMinutes = 10, HandleUnconfirmedMinutes = 60\<rparr>,
      Regtest = False\<rparr>"

definition exampleParse :: "string \<Rightarrow> Hash option \<times> error option" where
  "exampleParse str =
     (if str = ''not-a-hash'' then (None, Some ''encoding/hex: invalid byte'')
      else (Some 15, None))"

definition exampleEnv :: Env where
  "exampleEnv =
     \<lparr>getUnconfirmedTx = (False, 0, None),
      findLastUnspent = (True, \<lparr>TxID = ''0f'', Vout = 0\<rparr>, None),
      findTopupUnspent = (False, \<lparr>TxID = [], Vout = 0\<rparr>, None),
      GetNextAttestationKey = (\<lambda>h. (''key'', None)),
      GetNextAttestationAddr = (\<lambda>k h. (Some ''addr'', None)),
      ImportAttestationAddr = (\<lambda>a. None),
      createAttestation = (\<lambda>a us. (Some (MsgTx [1]), None)),
      signAttestation = (\<lambda>tx sg h. (Some (MsgTx [2]), None)),
      sendAttestation = (\<lambda>tx. (7, None)),
      bumpAttestationFees = (\<lambda>tx. (MsgTx [3], None)),
      GetAttestationCommitment = (\<lambda>h c. (\<lparr>root = 0, leaves = []\<rparr>, None)),
      GetClientCommitment = (\<lparr>root = 5, leaves = [5]\<rparr>, None),
      GetLatestAttestationCommitmentHash = (\<lambda>c. (0, None)),
      UpdateLatestAttestation = (\<lambda>a. None),
      GetSigs = [],
      GetRawTransaction = (\<lambda>h. (Some (MsgTx [4]), None)),
      GetTransaction = (\<lambda>h. (Some \<lparr>BlockHash = ''00ab'', BlockTime = 1\<rparr>, None)),
      NewHashFromStr = exampleParse,
      TxHash = (\<lambda>tx. 7),
      Serialize = (\<lambda>tx. case tx of MsgTx bs \<Rightarrow> bs),
      Now = (\<lambda>k. 0)\<rparr>"

text \<open>The service that \<open>NewAttestService\<close> returns for the example configuration.\<close>

definition exampleService :: Proc where
  "exampleService =
     \<lparr>state = ASTATE_INIT, attestation = NewAttestationDefault,
      errorState = None, isRegtest = False,
      atimeNewAttestation = 10 * Minute, atimeHandleUnconfirmed = 60 * Minute,
      attestDelay = 0, confirmTime = 0,
      trace = [Log ''Time new attestation set to: %v'',
               Log ''Time handle unconfirmed set to: %v'']\<rparr>"

text \<open>Six ticks of the timer with these collaborators.\<close>

definition exampleRun :: "Wake list" where
  "exampleRun = [TimerFired exampleEnv, TimerFired exampleEnv, TimerFired exampleEnv,
                 TimerFired exampleEnv, TimerFired exampleEnv, TimerFired exampleEnv]"

text \<open>The same collaborators with a wallet that cannot be reached when the driver asks
  for the unconfirmed transaction, and a run of two ticks: one with this wallet and one
  with the working collaborators.\<close>

definition walletDownEnv :: Env where
  "walletDownEnv = exampleEnv\<lparr>getUnconfirmedTx := (False, 0, Some ''connection refused'')\<rparr>"

definition failingRun :: "Wake list" where
  "failingRun = [TimerFired walletDownEnv, TimerFired exampleEnv]"

text \<open>The example configuration in regtest mode, and the service it starts.\<close>

definition regtestConfig :: Config where
  "regtestConfig = exampleConfig\<lparr>Regtest := True\<rparr>"

definition regtestService :: Proc where
  "regtestService = exampleService\<lparr>isRegtest := True\<rparr>"

text \<open>The process of the example run after its first tick, which waits in
  \<open>ASTATE_NEXT_COMMITMENT\<close> with the default attestation, and at its end, where it waits in
  \<open>ASTATE_AWAIT_CONFIRMATION\<close>.\<close>

definition nextCommitmentService :: Proc where
  "nextCommitmentService = Visited exampleRun exampleService ! 1"

definition awaitingService :: Proc where
  "awaitingService = procOf (Run exampleRun exampleService)"

text \<open>A store whose client commitment has the zero root, which the default attestation
  has too; a store that refuses every update; a wallet that has not seen the transaction in
  a block yet.\<close>

definition caughtUpEnv :: Env where
  "caughtUpEnv = exampleEnv\<lparr>GetClientCommitment := (\<lparr>root = 0, leaves = []\<rparr>, None)\<rparr>"

definition storeDownEnv :: Env where
  "storeDownEnv = exampleEnv\<lparr>UpdateLatestAttestation := (\<lambda>a. Some ''store unavailable'')\<rparr>"

definition unminedEnv :: Env where
  "unminedEnv = exampleEnv\<lparr>GetTransaction := (\<lambda>h. (Some \<lparr>BlockHash = [], BlockTime = 0\<rparr>, None))\<rparr>"

text \<open>A clock that stands one hour and one nanosecond after the zero instant.\<close>

definition lateEnv :: Env where
  "lateEnv = exampleEnv\<lparr>Now := (\<lambda>k. 3600000000001)\<rparr>"

text \<open>Configurations with other timing values: zero and minus one minutes, with the
  service they start; and a number of minutes whose count of nanoseconds is beyond the
  largest \<open>int64\<close>, with the service it starts. A configuration with a malformed \<open>InitTx\<close>.\<close>

definition invalidTimingConfig :: Config where
  "invalidTimingConfig =
     exampleConfig\<lparr>Timing := \<lparr>NewAttestationMinutes = 0, HandleUnconfirmedMinutes = - 1\<rparr>\<rparr>"

definition defaultTimingService :: Proc where
  "defaultTimingService =
     exampleService\<lparr>atimeNewAttestation := 60 * Minute, atimeHandleUnconfirmed := 60 * Minute,
       trace := [Log WARNING_INVALID_ATIME_NEW_ATTESTATION_ARG,
                 Log ''Time new attestation set to: %v'',
                 Log WARNING_INVALID_ATIME_HANDLE_UNCONFIRMED_ARG,
                 Log ''Time handle unconfirmed set to: %v'']\<rparr>"

definition overflowConfig :: Config where
  "overflowConfig =
     exampleConfig\<lparr>Timing := \<lparr>NewAttestationMinutes = 153722868, HandleUnconfirmedMinutes = 60\<rparr>\<rparr>"

definition overflowService :: Proc where
  "overflowService = exampleService\<lparr>atimeNewAttestation := 153722868 * Minute\<rparr>"

definition badInitTxConfig :: Config where
  "badInitTxConfig = exampleConfig\<lparr>InitTx := ''not-a-hash''\<rparr>"

text \<open>A wallet with an unconfirmed transaction 9 in its mempool, whose raw-transaction
  query fails: as the RPC client does on a failure, it returns nil and the error. A run of
  two ticks, the first with this wallet and the second with the working collaborators.\<close>

definition nilWalletEnv :: Env where
  "nilWalletEnv =
     exampleEnv\<lparr>getUnconfirmedTx := (True, 9, None),
       GetRawTransaction := (\<lambda>h. (None, Some ''connection refused''))\<rparr>"

definition nilWalletRun :: "Wake list" where
  "nilWalletRun = [TimerFired nilWalletEnv, TimerFired exampleEnv]"

text \<open>A store that knows a commitment for the unspent transaction, with a wallet that
  lists the unspent and then fails on both queries for the transaction, returning nil and
  the error.\<close>

definition nilWalletUnspentEnv :: Env where
  "nilWalletUnspentEnv =
     exampleEnv\<lparr>GetAttestationCommitment := (\<lambda>h c. (\<lparr>root = 3, leaves = [3]\<rparr>, None)),
       GetRawTransaction := (\<lambda>h. (None, Some ''connection refused'')),
       GetTransaction := (\<lambda>h. (None, Some ''connection refused''))\<rparr>"

text \<open>The working collaborators with a wallet whose \<open>GetTransaction\<close> fails in the same
  way.\<close>

definition walletGoneEnv :: Env where
  "walletGoneEnv = exampleEnv\<lparr>GetTransaction := (\<lambda>h. (None, Some ''connection refused''))\<rparr>"

section \<open>Basic facts\<close>

lemmas handler_defs = emit_def logmsg_def setFailure_def doStateError_def stateInitUnconfirmed_def
  stateInitUnspent_finish_def stateInitUnspent_def stateInitWalletFailure_def doStateInit_def
  doStateNextCommitment_def doStateNewAttestation_def doStateSignAttestation_def
  doStatePreSendStore_def doStateSendAttestation_def doStateAwaitConfirmation_def
  doStateHandleUnconfirmed_def

lemmas const_defs = Second_def Minute_def ATIME_FIXED_def ATIME_SIGS_def ATIME_CONFIRMATION_def
  DEFAULT_ATIME_NEW_ATTESTATION_def DEFAULT_ATIME_HANDLE_UNCONFIRMED_def

lemma example_parse: "exampleParse (InitTx exampleConfig) = (Some 15, None)"
  by (simp add: exampleParse_def exampleConfig_def)

lemma example_start: "NewAttestService exampleParse exampleConfig = Started exampleService"
  unfolding NewAttestService_def example_parse
  by (simp add: exampleConfig_def exampleService_def const_defs word_sless_alt)

lemma persistedBefore_Nil: "persistedBefore []"
  by (simp add: persistedBefore_def)

lemma persistedBefore_snoc:
  "persistedBefore (tr @ [e]) \<longleftrightarrow>
     persistedBefore tr \<and>
     (\<forall>tx. e = EvSendAttestation tx \<longrightarrow>
        (\<exists>a. EvUpdateLatestAttestation a None \<in> set tr \<and> \<not> Confirmed a \<and> Tx a = tx))"
proof
  assume L: "persistedBefore (tr @ [e])"
  have "persistedBefore tr"
    unfolding persistedBefore_def
  proof (intro allI impI)
    fix j tx assume j: "j < length tr \<and> tr ! j = EvSendAttestation tx"
    then have "j < length (tr @ [e]) \<and> (tr @ [e]) ! j = EvSendAttestation tx"
      by (simp add: nth_append)
    with L obtain i a where "i < j" "(tr @ [e]) ! i = EvUpdateLatestAttestation a None"
        "\<not> Confirmed a" "Tx a = tx"
      unfolding persistedBefore_def by blast
    with j show "\<exists>i<j. \<exists>a. tr ! i = EvUpdateLatestAttestation a None \<and> \<not> Confirmed a \<and> Tx a = tx"
      by (auto simp: nth_append)
  qed
  moreover have "\<exists>a. EvUpdateLatestAttestation a None \<in> set tr \<and> \<not> Confirmed a \<and> Tx a = tx"
    if "e = EvSendAttestation tx" for tx
  proof -
    from that have "length tr < length (tr @ [e]) \<and> (tr @ [e]) ! length tr = EvSendAttestation tx"
      by simp
    with L obtain i a where "i < length tr" "(tr @ [e]) ! i = EvUpdateLatestAttestation a None"
        "\<not> Confirmed a" "Tx a = tx"
      unfolding persistedBefore_def by blast
    from this(1,2) have "tr ! i = EvUpdateLatestAttestation a None" by (simp add: nth_append)
    with \<open>i < length tr\<close> have "EvUpdateLatestAttestation a None \<in> set tr" by (metis nth_mem)
    with \<open>\<not> Confirmed a\<close> \<open>Tx a = tx\<close> show ?thesis by blast
  qed
  ultimately show "persistedBefore tr \<and>
     (\<forall>tx. e = EvSendAttestation tx \<longrightarrow>
        (\<exists>a. EvUpdateLatestAttestation a None \<in> set tr \<and> \<not> Confirmed a \<and> Tx a = tx))"
    by blast
next
  assume R: "persistedBefore tr \<and>
     (\<forall>tx. e = EvSendAttestation tx \<longrightarrow>
        (\<exists>a. EvUpdateLatestAttestation a None \<in> set tr \<and> \<not> Confirmed a \<and> Tx a = tx))"
  show "persistedBefore (tr @ [e])"
    unfolding persistedBefore_def
  proof (intro allI impI)
    fix j tx assume j: "j < length (tr @ [e]) \<and> (tr @ [e]) ! j = EvSendAttestation tx"
    show "\<exists>i<j. \<exists>a. (tr @ [e]) ! i = EvUpdateLatestAttestation a None \<and> \<not> Confirmed a \<and> Tx a = tx"
    proof (cases "j < length tr")
      case True
      with j have "tr ! j = EvSendAttestation tx" by (simp add: nth_append)
      with R True obtain i a where i: "i < j" "tr ! i = EvUpdateLatestAttestation a None"
        "\<not> Confirmed a" "Tx a = tx"
        unfolding persistedBefore_def by blast
      from i(1) True have "i < length tr" by simp
      then have "(tr @ [e]) ! i = tr ! i" by (simp add: nth_append)
      with i show ?thesis by metis
    next
      case False
      with j have jl: "j = length tr" by simp
      with j have "e = EvSendAttestation tx" by simp
      with R obtain a where a: "EvUpdateLatestAttestation a None \<in> set tr" "\<not> Confirmed a" "Tx a = tx"
        by blast
      from a(1) obtain i where i: "i < length tr" "tr ! i = EvUpdateLatestAttestation a None"
        by (meson in_set_conv_nth)
      from i(1) have "(tr @ [e]) ! i = tr ! i" by (simp add: nth_append)
      with i a jl show ?thesis by metis
    qed
  qed
qed

lemma updatesOf_snoc_update:
  "updatesOf (tr @ [EvUpdateLatestAttestation a None]) = insert a (updatesOf tr)"
  by (auto simp: updatesOf_def)

lemma updatesOf_snoc_other:
  "(\<And>a. e \<noteq> EvUpdateLatestAttestation a None) \<Longrightarrow> updatesOf (tr @ [e]) = updatesOf tr"
  by (auto simp: updatesOf_def)

lemma persistedBefore_append:
  "persistedBefore (tr @ es) \<longleftrightarrow> persistedBefore tr \<and> sendsCovered (updatesOf tr) es"
proof (induction es arbitrary: tr)
  case Nil
  then show ?case by simp
next
  case (Cons e es)
  have "persistedBefore (tr @ e # es) = persistedBefore ((tr @ [e]) @ es)" by simp
  also have "\<dots> = (persistedBefore (tr @ [e]) \<and> sendsCovered (updatesOf (tr @ [e])) es)"
    by (rule Cons.IH)
  also have "\<dots> = (persistedBefore tr \<and> sendsCovered (updatesOf tr) (e # es))"
  proof (cases e)
    case (EvUpdateLatestAttestation a err)
    then show ?thesis
      by (cases err) (simp_all add: persistedBefore_snoc updatesOf_snoc_update updatesOf_snoc_other)
  next
    case (EvSendAttestation tx)
    then show ?thesis by (auto simp: persistedBefore_snoc updatesOf_snoc_other updatesOf_def)
  qed (simp_all add: persistedBefore_snoc updatesOf_snoc_other)
  finally show ?case .
qed

lemma sendsCovered_logs [simp]: "sendsCovered S (map (\<lambda>x. Log m) xs @ es) = sendsCovered S es"
  by (induction xs) auto

lemma sendsCovered_logs2 [simp]: "sendsCovered S (map (\<lambda>x. Log m) xs) = True"
  by (induction xs) auto

lemma in_updatesOf_append [simp]:
  "a \<in> updatesOf (tr @ es) \<longleftrightarrow> a \<in> updatesOf tr \<or> EvUpdateLatestAttestation a None \<in> set es"
  by (auto simp: updatesOf_def)

lemmas inv_simps = driverInv_def inFlight_def persistedBefore_append Let_def

lemma inv_doStateError: "driverInv s \<Longrightarrow> state s = ASTATE_ERROR \<Longrightarrow> driverInv (doStateError s)"
  by (simp add: inv_simps doStateError_def logmsg_def emit_def)


lemmas att_defs = UpdateInfo_def NewAttestation_def NewAttestationDefault_def SetCommitment_def

lemma inv_doStateInit:
  "driverInv s \<Longrightarrow> state s = ASTATE_INIT \<Longrightarrow> doStateInit env s = Return s' \<Longrightarrow> driverInv s'"
  by (auto simp: inv_simps handler_defs att_defs split: prod.splits option.splits if_splits)

lemma inv_doStateNextCommitment:
  "driverInv s \<Longrightarrow> state s = ASTATE_NEXT_COMMITMENT \<Longrightarrow> driverInv (doStateNextCommitment env s)"
  by (auto simp: inv_simps handler_defs att_defs split: prod.splits option.splits if_splits)

lemma inv_doStateNewAttestation:
  "driverInv s \<Longrightarrow> state s = ASTATE_NEW_ATTESTATION \<Longrightarrow> doStateNewAttestation env s = Return s' \<Longrightarrow> driverInv s'"
  by (auto simp: inv_simps handler_defs att_defs split: prod.splits option.splits if_splits)

lemma inv_doStateSignAttestation:
  "driverInv s \<Longrightarrow> state s = ASTATE_SIGN_ATTESTATION \<Longrightarrow> doStateSignAttestation env s = Return s' \<Longrightarrow> driverInv s'"
  by (auto simp: inv_simps handler_defs att_defs split: prod.splits option.splits if_splits)

lemma inv_doStatePreSendStore:
  "driverInv s \<Longrightarrow> state s = ASTATE_PRE_SEND_STORE \<Longrightarrow> driverInv (doStatePreSendStore env s)"
  by (auto simp: inv_simps handler_defs att_defs split: prod.splits option.splits if_splits)

lemma inv_doStateSendAttestation:
  "driverInv s \<Longrightarrow> state s = ASTATE_SEND_ATTESTATION \<Longrightarrow> driverInv (doStateSendAttestation env s)"
  by (auto simp: inv_simps handler_defs att_defs updatesOf_def split: prod.splits option.splits if_splits)

lemma inv_doStateAwaitConfirmation:
  "driverInv s \<Longrightarrow> state s = ASTATE_AWAIT_CONFIRMATION \<Longrightarrow> doStateAwaitConfirmation env s = Return s' \<Longrightarrow> driverInv s'"
  by (auto simp: inv_simps handler_defs att_defs split: prod.splits option.splits if_splits)

lemma inv_doStateHandleUnconfirmed:
  "driverInv s \<Longrightarrow> state s = ASTATE_HANDLE_UNCONFIRMED \<Longrightarrow> driverInv (doStateHandleUnconfirmed env s)"
  by (auto simp: inv_simps handler_defs att_defs split: prod.splits option.splits if_splits)

lemma inv_attestDelay [simp]: "driverInv (s\<lparr>attestDelay := d\<rparr>) = driverInv s"
  by (simp add: driverInv_def)

lemma doAttestation_simps:
  "state s = ASTATE_ERROR \<Longrightarrow> doAttestation env s = Return (doStateError (s\<lparr>attestDelay := ATIME_FIXED\<rparr>))"
  "state s = ASTATE_INIT \<Longrightarrow> doAttestation env s = doStateInit env (s\<lparr>attestDelay := ATIME_FIXED\<rparr>)"
  "state s = ASTATE_NEXT_COMMITMENT \<Longrightarrow> doAttestation env s = Return (doStateNextCommitment env (s\<lparr>attestDelay := ATIME_FIXED\<rparr>))"
  "state s = ASTATE_NEW_ATTESTATION \<Longrightarrow> doAttestation env s = doStateNewAttestation env (s\<lparr>attestDelay := ATIME_FIXED\<rparr>)"
  "state s = ASTATE_SIGN_ATTESTATION \<Longrightarrow> doAttestation env s = doStateSignAttestation env (s\<lparr>attestDelay := ATIME_FIXED\<rparr>)"
  "state s = ASTATE_PRE_SEND_STORE \<Longrightarrow> doAttestation env s = Return (doStatePreSendStore env (s\<lparr>attestDelay := ATIME_FIXED\<rparr>))"
  "state s = ASTATE_SEND_ATTESTATION \<Longrightarrow> doAttestation env s = Return (doStateSendAttestation env (s\<lparr>attestDelay := ATIME_FIXED\<rparr>))"
  "state s = ASTATE_AWAIT_CONFIRMATION \<Longrightarrow> doAttestation env s = doStateAwaitConfirmation env (s\<lparr>attestDelay := ATIME_FIXED\<rparr>)"
  "state s = ASTATE_HANDLE_UNCONFIRMED \<Longrightarrow> doAttestation env s = Return (doStateHandleUnconfirmed env (s\<lparr>attestDelay := ATIME_FIXED\<rparr>))"
  by (simp_all add: doAttestation_def Let_def)

lemma driverInv_doAttestation:
  assumes inv: "driverInv s" and r: "doAttestation env s = Return s'"
  shows "driverInv s'"
proof -
  let ?s1 = "s\<lparr>attestDelay := ATIME_FIXED\<rparr>"
  have inv1: "driverInv ?s1" using inv by simp
  show ?thesis
  proof (cases "state s")
    case ASTATE_ERROR
    with r have "s' = doStateError ?s1" by (simp add: doAttestation_simps)
    with inv1 ASTATE_ERROR show ?thesis by (simp add: inv_doStateError)
  next
    case ASTATE_INIT
    with r have "doStateInit env ?s1 = Return s'" by (simp add: doAttestation_simps)
    with inv ASTATE_INIT show ?thesis using inv_doStateInit[of ?s1 env s'] by simp
  next
    case ASTATE_NEXT_COMMITMENT
    with r have "s' = doStateNextCommitment env ?s1" by (simp add: doAttestation_simps)
    with inv1 ASTATE_NEXT_COMMITMENT show ?thesis by (simp add: inv_doStateNextCommitment)
  next
    case ASTATE_NEW_ATTESTATION
    with r have "doStateNewAttestation env ?s1 = Return s'" by (simp add: doAttestation_simps)
    with inv ASTATE_NEW_ATTESTATION show ?thesis using inv_doStateNewAttestation[of ?s1 env s'] by simp
  next
    case ASTATE_SIGN_ATTESTATION
    with r have "doStateSignAttestation env ?s1 = Return s'" by (simp add: doAttestation_simps)
    with inv ASTATE_SIGN_ATTESTATION show ?thesis using inv_doStateSignAttestation[of ?s1 env s'] by simp
  next
    case ASTATE_PRE_SEND_STORE
    with r have "s' = doStatePreSendStore env ?s1" by (simp add: doAttestation_simps)
    with inv1 ASTATE_PRE_SEND_STORE show ?thesis by (simp add: inv_doStatePreSendStore)
  next
    case ASTATE_SEND_ATTESTATION
    with r have "s' = doStateSendAttestation env ?s1" by (simp add: doAttestation_simps)
    with inv1 ASTATE_SEND_ATTESTATION show ?thesis by (simp add: inv_doStateSendAttestation)
  next
    case ASTATE_AWAIT_CONFIRMATION
    with r have "doStateAwaitConfirmation env ?s1 = Return s'" by (simp add: doAttestation_simps)
    with inv ASTATE_AWAIT_CONFIRMATION show ?thesis using inv_doStateAwaitConfirmation[of ?s1 env s'] by simp
  next
    case ASTATE_HANDLE_UNCONFIRMED
    with r have "s' = doStateHandleUnconfirmed env ?s1" by (simp add: doAttestation_simps)
    with inv1 ASTATE_HANDLE_UNCONFIRMED show ?thesis by (simp add: inv_doStateHandleUnconfirmed)
  qed
qed

lemma panic_doStateInit:
  "persistedBefore (trace s) \<Longrightarrow> doStateInit env s = Panic s' \<Longrightarrow> persistedBefore (trace s')"
  by (auto simp: persistedBefore_append Let_def handler_defs split: prod.splits option.splits if_splits)

lemma panic_doStateNewAttestation:
  "persistedBefore (trace s) \<Longrightarrow> doStateNewAttestation env s = Panic s' \<Longrightarrow> persistedBefore (trace s')"
  by (auto simp: persistedBefore_append Let_def handler_defs split: prod.splits option.splits if_splits)

lemma panic_doStateSignAttestation:
  "persistedBefore (trace s) \<Longrightarrow> doStateSignAttestation env s = Panic s' \<Longrightarrow> persistedBefore (trace s')"
  by (auto simp: persistedBefore_append Let_def handler_defs split: prod.splits option.splits if_splits)

lemma panic_doStateAwaitConfirmation:
  "persistedBefore (trace s) \<Longrightarrow> doStateAwaitConfirmation env s = Panic s' \<Longrightarrow> persistedBefore (trace s')"
  by (auto simp: persistedBefore_append Let_def handler_defs split: prod.splits option.splits if_splits)

lemma persisted_doAttestation_Panic:
  assumes inv: "driverInv s" and r: "doAttestation env s = Panic s'"
  shows "persistedBefore (trace s')"
proof -
  let ?s1 = "s\<lparr>attestDelay := ATIME_FIXED\<rparr>"
  have inv1: "persistedBefore (trace ?s1)" using inv by (simp add: driverInv_def)
  show ?thesis
  proof (cases "state s")
    case ASTATE_ERROR
    with r show ?thesis by (simp add: doAttestation_simps)
  next
    case ASTATE_INIT
    with r have "doStateInit env ?s1 = Panic s'" by (simp add: doAttestation_simps)
    with inv1 show ?thesis by (rule panic_doStateInit)
  next
    case ASTATE_NEXT_COMMITMENT
    with r show ?thesis by (simp add: doAttestation_simps)
  next
    case ASTATE_NEW_ATTESTATION
    with r have "doStateNewAttestation env ?s1 = Panic s'" by (simp add: doAttestation_simps)
    with inv1 show ?thesis by (rule panic_doStateNewAttestation)
  next
    case ASTATE_SIGN_ATTESTATION
    with r have "doStateSignAttestation env ?s1 = Panic s'" by (simp add: doAttestation_simps)
    with inv1 show ?thesis by (rule panic_doStateSignAttestation)
  next
    case ASTATE_PRE_SEND_STORE
    with r show ?thesis by (simp add: doAttestation_simps)
  next
    case ASTATE_SEND_ATTESTATION
    with r show ?thesis by (simp add: doAttestation_simps)
  next
    case ASTATE_AWAIT_CONFIRMATION
    with r have "doStateAwaitConfirmation env ?s1 = Panic s'" by (simp add: doAttestation_simps)
    with inv1 show ?thesis by (rule panic_doStateAwaitConfirmation)
  next
    case ASTATE_HANDLE_UNCONFIRMED
    with r show ?thesis by (simp add: doAttestation_simps)
  qed
qed

lemma driverInv_timerCase:
  "driverInv s \<Longrightarrow> timerCase env s = Return s' \<Longrightarrow> driverInv s'"
proof -
  assume inv: "driverInv s" and r: "timerCase env s = Return s'"
  from r obtain s1 where s1: "doAttestation env s = Return s1"
    and s': "s' = logmsg ''********** sleeping for: %s ...''
                   (if isRegtest s1 then s1\<lparr>attestDelay := 10 * Second\<rparr> else s1)"
    by (auto simp: timerCase_def Let_def split: Outcome.splits)
  from inv s1 have "driverInv s1" by (rule driverInv_doAttestation)
  then show "driverInv s'"
    unfolding s' by (simp add: inv_simps logmsg_def emit_def)
qed

lemma persisted_timerCase_Panic:
  "driverInv s \<Longrightarrow> timerCase env s = Panic s' \<Longrightarrow> persistedBefore (trace s')"
  by (auto simp: timerCase_def Let_def split: Outcome.splits dest: persisted_doAttestation_Panic)

lemma persisted_RunLoop:
  "driverInv s \<Longrightarrow> persistedBefore (trace (procOf (RunLoop ts s)))"
proof (induction ts s rule: RunLoop.induct)
  case (1 s)
  then show ?case by (simp add: driverInv_def)
next
  case (2 ts s)
  then show ?case by (simp add: inv_simps logmsg_def emit_def)
next
  case (3 env ts s)
  show ?case
  proof (cases "timerCase env s")
    case (Return s1)
    with 3 show ?thesis by (simp add: driverInv_timerCase)
  next
    case (Panic s1)
    with 3 show ?thesis by (simp add: persisted_timerCase_Panic)
  qed
qed

lemma NewAttestService_Started:
  assumes "NewAttestService parseHash config = Started s0"
  shows "snd (parseHash (InitTx config)) = None \<and>
     s0 = \<lparr>state = ASTATE_INIT, attestation = NewAttestationDefault,
           errorState = None, isRegtest = Regtest config,
           atimeNewAttestation =
             (if 0 <s NewAttestationMinutes (Timing config)
              then NewAttestationMinutes (Timing config) * Minute
              else DEFAULT_ATIME_NEW_ATTESTATION),
           atimeHandleUnconfirmed =
             (if 0 <s HandleUnconfirmedMinutes (Timing config)
              then HandleUnconfirmedMinutes (Timing config) * Minute
              else DEFAULT_ATIME_HANDLE_UNCONFIRMED),
           attestDelay = 0, confirmTime = 0,
           trace =
             (if 0 <s NewAttestationMinutes (Timing config) then []
              else [Log WARNING_INVALID_ATIME_NEW_ATTESTATION_ARG])
             @ [Log ''Time new attestation set to: %v'']
             @ (if 0 <s HandleUnconfirmedMinutes (Timing config) then []
                else [Log WARNING_INVALID_ATIME_HANDLE_UNCONFIRMED_ARG])
             @ [Log ''Time handle unconfirmed set to: %v'']\<rparr>"
proof -
  obtain h e where p: "parseHash (InitTx config) = (h, e)" by (cases "parseHash (InitTx config)")
  show ?thesis
  proof (cases e)
    case None
    with assms p show ?thesis
      by (cases "0 <s NewAttestationMinutes (Timing config)";
          cases "0 <s HandleUnconfirmedMinutes (Timing config)")
         (auto simp: NewAttestService_def Let_def)
  next
    case (Some a)
    with assms p show ?thesis
      by (simp add: NewAttestService_def)
  qed
qed


lemma driverInv_NewAttestService:
  "NewAttestService parseHash config = Started s0 \<Longrightarrow> driverInv s0"
proof -
  assume "NewAttestService parseHash config = Started s0"
  note s0 = NewAttestService_Started[OF this, THEN conjunct2]
  have st: "state s0 = ASTATE_INIT" by (subst s0) simp
  have "\<exists>es. trace s0 = [] @ es \<and> sendsCovered (updatesOf []) es"
    by (subst s0) simp
  then have "persistedBefore (trace s0)"
    using persistedBefore_append[of "[]"] persistedBefore_Nil by metis
  with st show "driverInv s0"
    by (simp add: driverInv_def inFlight_def)
qed

section \<open>Store update before broadcast\<close>

text \<open>
  Claim C1. In every execution of the driver, from the service that \<open>NewAttestService\<close>
  returns and over any sequence of timer ticks and answers of the collaborators (up to a
  cancellation, a panic or any point of the loop), every \<open>sendAttestation\<close> call in the trace
  comes strictly after an \<open>UpdateLatestAttestation\<close> call that the store answered with nil
  and whose attestation is unconfirmed and holds the transaction that is broadcast: no
  transaction is broadcast before the unconfirmed attestation was persisted.
\<close>

theorem persist_before_broadcast:
  assumes "NewAttestService parseHash config = Started s0"
    and "tr = trace (procOf (Run ts s0))"
    and "j < length tr"
    and "tr ! j = EvSendAttestation tx"
  shows "\<exists>i<j. \<exists>a. tr ! i = EvUpdateLatestAttestation a None \<and> \<not> Confirmed a \<and> Tx a = tx"
proof -
  from assms(1) have "driverInv s0" by (rule driverInv_NewAttestService)
  then have "driverInv (s0\<lparr>attestDelay := 30 * Second\<rparr>)" by simp
  then have "persistedBefore tr"
    unfolding assms(2) Run_def by (rule persisted_RunLoop)
  with assms(3,4) show ?thesis
    unfolding persistedBefore_def by blast
qed

theorem persist_before_broadcast_witness:
  "NewAttestService exampleParse exampleConfig = Started exampleService \<and>
   34 < length (trace (procOf (Run exampleRun exampleService))) \<and>
   trace (procOf (Run exampleRun exampleService)) ! 34 = EvSendAttestation (MsgTx [2]) \<and>
   (\<exists>i<34. \<exists>a. trace (procOf (Run exampleRun exampleService)) ! i =
        EvUpdateLatestAttestation a None \<and>
      \<not> Confirmed a \<and> Tx a = MsgTx [2])"
proof -
  have len: "34 < length (trace (procOf (Run exampleRun exampleService)))"
    by code_simp
  have at: "trace (procOf (Run exampleRun exampleService)) ! 34 = EvSendAttestation (MsgTx [2])"
    by code_simp
  from persist_before_broadcast [OF example_start refl len at] example_start len at
  show ?thesis by blast
qed

section \<open>From a new attestation to its broadcast\<close>

subsection \<open>Consecutive states of a run\<close>

lemma RunStates_first: "RunStates ts s ! 0 = s"
  by (induction ts s rule: RunStates.induct) auto

lemma RunStates_step:
  "Suc i < length (RunStates ts s) \<Longrightarrow>
   \<exists>env. timerCase env (RunStates ts s ! i) = Return (RunStates ts s ! Suc i)"
proof (induction ts s arbitrary: i rule: RunStates.induct)
  case (1 s)
  then show ?case by simp
next
  case (2 ts s)
  then show ?case by simp
next
  case (3 env ts s)
  show ?case
  proof (cases "timerCase env s")
    case (Panic s1)
    with 3 show ?thesis by simp
  next
    case (Return s1)
    show ?thesis
    proof (cases i)
      case 0
      with Return show ?thesis by (auto simp: RunStates_first)
    next
      case (Suc k)
      with 3 Return show ?thesis by auto
    qed
  qed
qed

lemma timerCase_Return:
  "timerCase env s = Return s' \<Longrightarrow>
   \<exists>s1. doAttestation env s = Return s1 \<and>
        s' = logmsg ''********** sleeping for: %s ...''
               (if isRegtest s1 then s1\<lparr>attestDelay := 10 * Second\<rparr> else s1)"
  by (auto simp: timerCase_def Let_def split: Outcome.splits)

lemma timerCase_state:
  "timerCase env s = Return s' \<Longrightarrow> \<exists>s1. doAttestation env s = Return s1 \<and> state s' = state s1"
  by (auto simp: logmsg_def emit_def dest!: timerCase_Return)

text \<open>Where the handlers can leave the state.\<close>

lemma doAttestation_to_SEND:
  "doAttestation env s = Return s' \<Longrightarrow> state s' = ASTATE_SEND_ATTESTATION \<Longrightarrow>
   state s = ASTATE_PRE_SEND_STORE"
  by (cases "state s")
     (auto simp: doAttestation_simps handler_defs Let_def split: prod.splits option.splits if_splits)

lemma doAttestation_to_PRE_SEND:
  "doAttestation env s = Return s' \<Longrightarrow> state s' = ASTATE_PRE_SEND_STORE \<Longrightarrow>
   state s = ASTATE_SIGN_ATTESTATION"
  by (cases "state s")
     (auto simp: doAttestation_simps handler_defs Let_def split: prod.splits option.splits if_splits)

lemma doAttestation_from_NEW:
  "doAttestation env s = Return s' \<Longrightarrow> state s = ASTATE_NEW_ATTESTATION \<Longrightarrow>
     state s' = ASTATE_SIGN_ATTESTATION \<or> state s' = ASTATE_ERROR"
  by (auto simp: doAttestation_simps handler_defs Let_def split: prod.splits option.splits if_splits)

lemma doAttestation_from_SIGN:
  "doAttestation env s = Return s' \<Longrightarrow> state s = ASTATE_SIGN_ATTESTATION \<Longrightarrow>
     state s' = ASTATE_PRE_SEND_STORE \<or> state s' = ASTATE_ERROR"
  by (auto simp: doAttestation_simps handler_defs Let_def split: prod.splits option.splits if_splits)

lemma doAttestation_from_PRE_SEND:
  "doAttestation env s = Return s' \<Longrightarrow> state s = ASTATE_PRE_SEND_STORE \<Longrightarrow>
     state s' = ASTATE_SEND_ATTESTATION \<or> state s' = ASTATE_ERROR"
  by (auto simp: doAttestation_simps handler_defs Let_def split: prod.splits option.splits if_splits)

lemma doAttestation_from_ERROR:
  "state s = ASTATE_ERROR \<Longrightarrow>
   \<exists>s'. doAttestation env s = Return s' \<and> state s' = ASTATE_INIT \<and> errorState s' = errorState s"
  by (simp add: doAttestation_simps handler_defs Let_def)

text \<open>
  Claim C3. Along every run of the loop (the states \<open>sts\<close> at the top of its iterations, from
  any process \<open>s\<close>), the driver never goes from \<open>ASTATE_NEW_ATTESTATION\<close> straight to
  \<open>ASTATE_SEND_ATTESTATION\<close>: the handler of \<open>ASTATE_NEW_ATTESTATION\<close> leaves only to
  \<open>ASTATE_SIGN_ATTESTATION\<close> (or to the error state), that of \<open>ASTATE_SIGN_ATTESTATION\<close> only to
  \<open>ASTATE_PRE_SEND_STORE\<close>, that of \<open>ASTATE_PRE_SEND_STORE\<close> only to \<open>ASTATE_SEND_ATTESTATION\<close>,
  and whenever the run is in \<open>ASTATE_NEW_ATTESTATION\<close> at \<open>i\<close> and in \<open>ASTATE_SEND_ATTESTATION\<close> at
  a later \<open>j\<close>, it is in \<open>ASTATE_SIGN_ATTESTATION\<close> and then in \<open>ASTATE_PRE_SEND_STORE\<close> at two
  consecutive iterations strictly between them.
\<close>

theorem sign_and_store_before_send:
  assumes sts: "sts = map state (RunStates ts s)"
  shows "(\<forall>i. Suc i < length sts \<and> sts ! i = ASTATE_NEW_ATTESTATION \<longrightarrow>
            sts ! Suc i = ASTATE_SIGN_ATTESTATION \<or> sts ! Suc i = ASTATE_ERROR) \<and>
         (\<forall>i. Suc i < length sts \<and> sts ! i = ASTATE_SIGN_ATTESTATION \<longrightarrow>
            sts ! Suc i = ASTATE_PRE_SEND_STORE \<or> sts ! Suc i = ASTATE_ERROR) \<and>
         (\<forall>i. Suc i < length sts \<and> sts ! i = ASTATE_PRE_SEND_STORE \<longrightarrow>
            sts ! Suc i = ASTATE_SEND_ATTESTATION \<or> sts ! Suc i = ASTATE_ERROR) \<and>
         (\<forall>i j. i < j \<and> j < length sts \<and>
            sts ! i = ASTATE_NEW_ATTESTATION \<and> sts ! j = ASTATE_SEND_ATTESTATION \<longrightarrow>
            (\<exists>k. i < k \<and> Suc k < j \<and>
               sts ! k = ASTATE_SIGN_ATTESTATION \<and> sts ! Suc k = ASTATE_PRE_SEND_STORE))"
proof -
  have len: "length sts = length (RunStates ts s)" by (simp add: sts)
  have nth: "sts ! i = state (RunStates ts s ! i)" if "i < length sts" for i
    using that by (simp add: sts)
  have step: "\<exists>env a b. doAttestation env a = Return b \<and> state a = sts ! i \<and> state b = sts ! Suc i"
    if "Suc i < length sts" for i
  proof -
    from that len obtain env where
      "timerCase env (RunStates ts s ! i) = Return (RunStates ts s ! Suc i)"
      using RunStates_step by metis
    from timerCase_state[OF this] obtain s1 where
      "doAttestation env (RunStates ts s ! i) = Return s1" "state (RunStates ts s ! Suc i) = state s1"
      by blast
    with that nth[of i] nth[of "Suc i"] show ?thesis by auto
  qed
  have fromNEW: "sts ! Suc i = ASTATE_SIGN_ATTESTATION \<or> sts ! Suc i = ASTATE_ERROR"
    if "Suc i < length sts" "sts ! i = ASTATE_NEW_ATTESTATION" for i
    using step[OF that(1)] that(2) doAttestation_from_NEW by metis
  have fromSIGN: "sts ! Suc i = ASTATE_PRE_SEND_STORE \<or> sts ! Suc i = ASTATE_ERROR"
    if "Suc i < length sts" "sts ! i = ASTATE_SIGN_ATTESTATION" for i
    using step[OF that(1)] that(2) doAttestation_from_SIGN by metis
  have fromPRE: "sts ! Suc i = ASTATE_SEND_ATTESTATION \<or> sts ! Suc i = ASTATE_ERROR"
    if "Suc i < length sts" "sts ! i = ASTATE_PRE_SEND_STORE" for i
    using step[OF that(1)] that(2) doAttestation_from_PRE_SEND by metis
  have toSEND: "sts ! i = ASTATE_PRE_SEND_STORE"
    if "Suc i < length sts" "sts ! Suc i = ASTATE_SEND_ATTESTATION" for i
    using step[OF that(1)] that(2) doAttestation_to_SEND by metis
  have toPRE: "sts ! i = ASTATE_SIGN_ATTESTATION"
    if "Suc i < length sts" "sts ! Suc i = ASTATE_PRE_SEND_STORE" for i
    using step[OF that(1)] that(2) doAttestation_to_PRE_SEND by metis
  have between: "\<exists>k. i < k \<and> Suc k < j \<and>
               sts ! k = ASTATE_SIGN_ATTESTATION \<and> sts ! Suc k = ASTATE_PRE_SEND_STORE"
    if ij: "i < j" "j < length sts"
      and i: "sts ! i = ASTATE_NEW_ATTESTATION" and j: "sts ! j = ASTATE_SEND_ATTESTATION" for i j
  proof -
    from ij obtain j1 where j1: "j = Suc j1" by (cases j) auto
    with ij j have pre: "sts ! j1 = ASTATE_PRE_SEND_STORE" using toSEND by blast
    with i have "i \<noteq> j1" by auto
    with ij j1 have ij1: "i < j1" by simp
    then obtain k where k: "j1 = Suc k" by (cases j1) auto
    with pre ij j1 have sign: "sts ! k = ASTATE_SIGN_ATTESTATION" using toPRE[of k] by simp
    with i have "i \<noteq> k" by auto
    with ij1 k have "i < k" by simp
    with k j1 pre sign show ?thesis by auto
  qed
  from fromNEW fromSIGN fromPRE between show ?thesis by blast
qed

theorem sign_and_store_before_send_witness:
  "map state (RunStates exampleRun exampleService) ! 2 = ASTATE_NEW_ATTESTATION \<and>
   map state (RunStates exampleRun exampleService) ! 5 = ASTATE_SEND_ATTESTATION \<and>
   5 < length (map state (RunStates exampleRun exampleService)) \<and>
   map state (RunStates exampleRun exampleService) ! 3 = ASTATE_SIGN_ATTESTATION \<and>
   (\<exists>k. 2 < k \<and> Suc k < 5 \<and>
      map state (RunStates exampleRun exampleService) ! k = ASTATE_SIGN_ATTESTATION \<and>
      map state (RunStates exampleRun exampleService) ! Suc k = ASTATE_PRE_SEND_STORE)"
proof -
  have run: "map state (RunStates exampleRun exampleService) =
      [ASTATE_INIT, ASTATE_NEXT_COMMITMENT, ASTATE_NEW_ATTESTATION, ASTATE_SIGN_ATTESTATION,
       ASTATE_PRE_SEND_STORE, ASTATE_SEND_ATTESTATION, ASTATE_AWAIT_CONFIRMATION]"
    by code_simp
  have a: "map state (RunStates exampleRun exampleService) ! 2 = ASTATE_NEW_ATTESTATION"
    and b: "map state (RunStates exampleRun exampleService) ! 5 = ASTATE_SEND_ATTESTATION"
    and c: "5 < length (map state (RunStates exampleRun exampleService))"
    and d: "map state (RunStates exampleRun exampleService) ! 3 = ASTATE_SIGN_ATTESTATION"
    unfolding run by simp_all
  have e: "(2::nat) < 5" by simp
  note between = sign_and_store_before_send [OF refl, of exampleRun exampleService,
      THEN conjunct2, THEN conjunct2, THEN conjunct2, rule_format, of 2 5]
  from between a b c e
  have "\<exists>k. 2 < k \<and> Suc k < 5 \<and>
      map state (RunStates exampleRun exampleService) ! k = ASTATE_SIGN_ATTESTATION \<and>
      map state (RunStates exampleRun exampleService) ! Suc k = ASTATE_PRE_SEND_STORE"
    by blast
  with a b c d show ?thesis by blast
qed

section \<open>Failures, the error state and the delay in regtest mode\<close>

subsection \<open>The error state\<close>

lemma setFailure_Some:
  "setFailure (Some e) s = (True, s\<lparr>errorState := Some e, state := ASTATE_ERROR\<rparr>)"
  by (simp add: setFailure_def)

lemma setFailure_None: "setFailure None s = (False, s)"
  by (simp add: setFailure_def)

lemma doAttestation_Return_ERROR:
  "doAttestation env s = Return s' \<Longrightarrow> state s' = ASTATE_ERROR \<Longrightarrow> errorState s' \<noteq> None"
  by (cases "state s")
     (auto simp: doAttestation_simps handler_defs Let_def split: prod.splits option.splits if_splits)

lemma doAttestation_Panic_ERROR:
  "doAttestation env s = Panic s' \<Longrightarrow> state s' = ASTATE_ERROR \<Longrightarrow> errorState s' \<noteq> None"
  by (cases "state s")
     (auto simp: doAttestation_simps handler_defs Let_def split: prod.splits option.splits if_splits)

lemma doAttestation_ERROR_has_error:
  "state (outProc (doAttestation env s)) = ASTATE_ERROR \<Longrightarrow>
   errorState (outProc (doAttestation env s)) \<noteq> None"
  using doAttestation_Return_ERROR[of env s] doAttestation_Panic_ERROR[of env s]
  by (cases "doAttestation env s") simp_all

lemma doAttestation_new_error:
  "doAttestation env s = Return s' \<Longrightarrow> errorState s' \<noteq> errorState s \<Longrightarrow> state s' = ASTATE_ERROR"
  by (cases "state s")
     (auto simp: doAttestation_simps handler_defs Let_def split: prod.splits option.splits if_splits)

lemma timerCase_ERROR_has_error:
  "state (outProc (timerCase env s)) = ASTATE_ERROR \<Longrightarrow>
   errorState (outProc (timerCase env s)) \<noteq> None"
  using doAttestation_ERROR_has_error[of env s]
  by (cases "doAttestation env s")
     (auto simp: timerCase_def Let_def logmsg_def emit_def split: if_splits)

lemma RunStates_ERROR_has_error:
  "state s = ASTATE_ERROR \<longrightarrow> errorState s \<noteq> None \<Longrightarrow> x \<in> set (RunStates ts s) \<Longrightarrow>
   state x = ASTATE_ERROR \<Longrightarrow> errorState x \<noteq> None"
proof (induction ts s rule: RunStates.induct)
  case (3 env ts s)
  show ?case
  proof (cases "timerCase env s")
    case (Return s1)
    with timerCase_ERROR_has_error[of env s]
    have "state s1 = ASTATE_ERROR \<longrightarrow> errorState s1 \<noteq> None" by simp
    with 3 Return show ?thesis by auto
  next
    case (Panic s1)
    with 3 show ?thesis by auto
  qed
qed auto

lemma RunLoop_ERROR_has_error:
  "state s = ASTATE_ERROR \<longrightarrow> errorState s \<noteq> None \<Longrightarrow>
   state (procOf (RunLoop ts s)) = ASTATE_ERROR \<Longrightarrow> errorState (procOf (RunLoop ts s)) \<noteq> None"
proof (induction ts s rule: RunLoop.induct)
  case (1 s)
  then show ?case by simp
next
  case (2 ts s)
  then show ?case by (simp add: logmsg_def emit_def)
next
  case (3 env ts s)
  show ?case
  proof (cases "timerCase env s")
    case (Return s1)
    with timerCase_ERROR_has_error[of env s]
    have "state s1 = ASTATE_ERROR \<longrightarrow> errorState s1 \<noteq> None" by simp
    with 3 Return show ?thesis by auto
  next
    case (Panic s1)
    with timerCase_ERROR_has_error[of env s] 3 show ?thesis by auto
  qed
qed

text \<open>
  Claim C9. The service that \<open>NewAttestService\<close> returns is in \<open>ASTATE_INIT\<close> with a nil
  \<open>errorState\<close>, and in every process that a run reaches from it (at the top of any
  iteration of the loop, and where the run stands at its end, also after a panic), the state
  \<open>ASTATE_ERROR\<close> comes with a non-nil \<open>errorState\<close>. From any process at all, a tick that
  ends in \<open>ASTATE_ERROR\<close> has stored an error: the state is set to \<open>ASTATE_ERROR\<close> by
  \<open>setFailure\<close> only. \<open>setFailure\<close> with a non-nil error returns true, stores the error and
  sets the state; with nil it returns false and changes nothing.
\<close>

theorem error_state_has_error:
  assumes "NewAttestService parseHash config = Started s0"
  shows "state s0 = ASTATE_INIT \<and> errorState s0 = None \<and>
     (\<forall>s. (s \<in> set (Visited ts s0) \<or> s = procOf (Run ts s0)) \<and> state s = ASTATE_ERROR \<longrightarrow>
          errorState s \<noteq> None) \<and>
     (\<forall>env p. state (outProc (doAttestation env p)) = ASTATE_ERROR \<longrightarrow>
          errorState (outProc (doAttestation env p)) \<noteq> None) \<and>
     (\<forall>p e. setFailure (Some e) p = (True, p\<lparr>errorState := Some e, state := ASTATE_ERROR\<rparr>)) \<and>
     (\<forall>p. setFailure None p = (False, p))"
proof -
  note s0 = NewAttestService_Started[OF assms, THEN conjunct2]
  have st: "state s0 = ASTATE_INIT" by (subst s0) simp
  have er: "errorState s0 = None" by (subst s0) simp
  let ?s1 = "s0\<lparr>attestDelay := 30 * Second\<rparr>"
  from st have start: "state ?s1 = ASTATE_ERROR \<longrightarrow> errorState ?s1 \<noteq> None" by simp
  have "errorState s \<noteq> None"
    if "s \<in> set (Visited ts s0) \<or> s = procOf (Run ts s0)" "state s = ASTATE_ERROR" for s
    using that RunStates_ERROR_has_error[OF start, of s ts] RunLoop_ERROR_has_error[OF start, of ts]
    by (auto simp: Visited_def Run_def)
  with st er doAttestation_ERROR_has_error setFailure_Some setFailure_None
  show ?thesis by blast
qed

theorem error_state_has_error_witness:
  "NewAttestService exampleParse exampleConfig = Started exampleService \<and>
   Visited failingRun exampleService ! 1 \<in> set (Visited failingRun exampleService) \<and>
   state (Visited failingRun exampleService ! 1) = ASTATE_ERROR \<and>
   errorState (Visited failingRun exampleService ! 1) = Some ''connection refused'' \<and>
   errorState (Visited failingRun exampleService ! 1) \<noteq> None"
proof -
  have len: "1 < length (Visited failingRun exampleService)" by code_simp
  then have mem: "Visited failingRun exampleService ! 1 \<in> set (Visited failingRun exampleService)"
    by (rule nth_mem)
  have st: "state (Visited failingRun exampleService ! 1) = ASTATE_ERROR" by code_simp
  have er: "errorState (Visited failingRun exampleService ! 1) = Some ''connection refused''"
    by code_simp
  from error_state_has_error [OF example_start, of failingRun] mem st
  have "errorState (Visited failingRun exampleService ! 1) \<noteq> None" by blast
  with example_start mem st er show ?thesis by blast
qed

subsection \<open>Failure and reset\<close>

lemma RunStates_after_ERROR:
  assumes "Suc i < length (RunStates ts s)" and "state (RunStates ts s ! i) = ASTATE_ERROR"
  shows "state (RunStates ts s ! Suc i) = ASTATE_INIT"
proof -
  from RunStates_step[OF assms(1)] obtain env where
    "timerCase env (RunStates ts s ! i) = Return (RunStates ts s ! Suc i)" by blast
  from timerCase_state[OF this] obtain s1 where
    s1: "doAttestation env (RunStates ts s ! i) = Return s1"
        "state (RunStates ts s ! Suc i) = state s1" by blast
  from doAttestation_from_ERROR[OF assms(2), of env] s1 show ?thesis by auto
qed

subsection \<open>The errors that the handlers check\<close>

text \<open>
  Every error that a handler hands to \<open>setFailure\<close> ends the tick in \<open>ASTATE_ERROR\<close> with
  that error stored, once the calls before it in the handler have succeeded: one lemma for
  each call of \<open>setFailure\<close> in the source.
\<close>

lemmas fail_defs = setFailure_def emit_def logmsg_def Let_def

lemma doStateInit_unconfirmedErr:
  assumes "getUnconfirmedTx env = (b, t, Some e)"
  shows "\<exists>s'. doStateInit env s = Return s' \<and> state s' = ASTATE_ERROR \<and> errorState s' = Some e"
  using assms by (simp add: doStateInit_def fail_defs)

lemma doStateInit_unspentErr:
  assumes "getUnconfirmedTx env = (False, t, None)" and "findLastUnspent env = (b, u, Some e)"
  shows "\<exists>s'. doStateInit env s = Return s' \<and> state s' = ASTATE_ERROR \<and> errorState s' = Some e"
  using assms by (simp add: doStateInit_def fail_defs)

lemma stateInitUnconfirmed_commitmentErr:
  assumes "GetAttestationCommitment env txid [False] = (c, Some e)"
  shows "\<exists>s'. stateInitUnconfirmed env txid s = Return s' \<and> state s' = ASTATE_ERROR \<and>
     errorState s' = Some e"
  using assms by (simp add: stateInitUnconfirmed_def fail_defs)

lemma stateInitUnspent_commitmentErr:
  assumes "NewHashFromStr env (TxID u) = (Some h, perr)"
    and "GetAttestationCommitment env h [] = (c, Some e)"
  shows "\<exists>s'. stateInitUnspent env u s = Return s' \<and> state s' = ASTATE_ERROR \<and>
     errorState s' = Some e"
  using assms by (simp add: stateInitUnspent_def fail_defs)

lemma stateInitUnspent_errUpdate:
  assumes "NewHashFromStr env (TxID u) = (Some h, perr)"
    and "GetAttestationCommitment env h [] = (c, None)" and "GetCommitmentHash c \<noteq> 0"
    and "GetRawTransaction env h = (Some tx, werr1)"
    and "GetTransaction env h = (Some w, werr2)"
    and "UpdateLatestAttestation env
           (UpdateInfo w ((NewAttestation h (Some c))\<lparr>Confirmed := True, Tx := tx\<rparr>)) = Some e"
  shows "\<exists>s'. stateInitUnspent env u s = Return s' \<and> state s' = ASTATE_ERROR \<and>
     errorState s' = Some e"
  using assms
  by (simp add: stateInitUnspent_def fail_defs UpdateInfo_def NewAttestation_def)

lemma doStateNextCommitment_latestErr:
  assumes "GetClientCommitment env = (c, Some e)"
  shows "state (doStateNextCommitment env s) = ASTATE_ERROR \<and>
     errorState (doStateNextCommitment env s) = Some e"
  using assms by (simp add: doStateNextCommitment_def fail_defs)

lemma doStateNewAttestation_keyErr:
  assumes "GetNextAttestationKey env (CommitmentHash (attestation s)) = (k, Some e)"
  shows "\<exists>s'. doStateNewAttestation env s = Return s' \<and> state s' = ASTATE_ERROR \<and>
     errorState s' = Some e"
  using assms by (simp add: doStateNewAttestation_def fail_defs)

lemma doStateNewAttestation_importErr:
  assumes "GetNextAttestationKey env (CommitmentHash (attestation s)) = (k, None)"
    and "GetNextAttestationAddr env k (CommitmentHash (attestation s)) = (Some a, aerr)"
    and "ImportAttestationAddr env a = Some e"
  shows "\<exists>s'. doStateNewAttestation env s = Return s' \<and> state s' = ASTATE_ERROR \<and>
     errorState s' = Some e"
  using assms by (simp add: doStateNewAttestation_def fail_defs)

lemma doStateNewAttestation_unspentErr:
  assumes "GetNextAttestationKey env (CommitmentHash (attestation s)) = (k, None)"
    and "GetNextAttestationAddr env k (CommitmentHash (attestation s)) = (Some a, aerr)"
    and "ImportAttestationAddr env a = None"
    and "findLastUnspent env = (b, u, Some e)"
  shows "\<exists>s'. doStateNewAttestation env s = Return s' \<and> state s' = ASTATE_ERROR \<and>
     errorState s' = Some e"
  using assms by (simp add: doStateNewAttestation_def fail_defs)

lemma doStateNewAttestation_unspentNotFound:
  assumes "GetNextAttestationKey env (CommitmentHash (attestation s)) = (k, None)"
    and "GetNextAttestationAddr env k (CommitmentHash (attestation s)) = (Some a, aerr)"
    and "ImportAttestationAddr env a = None"
    and "findLastUnspent env = (False, u, None)"
  shows "\<exists>s'. doStateNewAttestation env s = Return s' \<and> state s' = ASTATE_ERROR \<and>
     errorState s' = Some ERROR_UNSPENT_NOT_FOUND"
  using assms by (simp add: doStateNewAttestation_def fail_defs)

lemma doStateNewAttestation_topupUnspentErr:
  assumes "GetNextAttestationKey env (CommitmentHash (attestation s)) = (k, None)"
    and "GetNextAttestationAddr env k (CommitmentHash (attestation s)) = (Some a, aerr)"
    and "ImportAttestationAddr env a = None"
    and "findLastUnspent env = (True, u, None)"
    and "findTopupUnspent env = (b, tu, Some e)"
  shows "\<exists>s'. doStateNewAttestation env s = Return s' \<and> state s' = ASTATE_ERROR \<and>
     errorState s' = Some e"
  using assms by (simp add: doStateNewAttestation_def fail_defs)

lemma doStateNewAttestation_createErr:
  assumes "GetNextAttestationKey env (CommitmentHash (attestation s)) = (k, None)"
    and "GetNextAttestationAddr env k (CommitmentHash (attestation s)) = (Some a, aerr)"
    and "ImportAttestationAddr env a = None"
    and "findLastUnspent env = (True, u, None)"
    and "findTopupUnspent env = (b, tu, None)"
    and "createAttestation env a (if b then [u, tu] else [u]) = (tx, Some e)"
  shows "\<exists>s'. doStateNewAttestation env s = Return s' \<and> state s' = ASTATE_ERROR \<and>
     errorState s' = Some e"
  using assms by (cases b) (simp_all add: doStateNewAttestation_def fail_defs)

lemma doStateSignAttestation_latestErr:
  assumes "GetLatestAttestationCommitmentHash env [] = (h, Some e)"
  shows "\<exists>s'. doStateSignAttestation env s = Return s' \<and> state s' = ASTATE_ERROR \<and>
     errorState s' = Some e"
  using assms by (simp add: doStateSignAttestation_def fail_defs)

lemma doStateSignAttestation_signErr:
  assumes "GetLatestAttestationCommitmentHash env [] = (h, None)"
    and "signAttestation env (Tx (attestation s)) (GetSigs env) h = (tx, Some e)"
  shows "\<exists>s'. doStateSignAttestation env s = Return s' \<and> state s' = ASTATE_ERROR \<and>
     errorState s' = Some e"
  using assms by (simp add: doStateSignAttestation_def fail_defs)

lemma doStatePreSendStore_errUpdate:
  assumes "UpdateLatestAttestation env (attestation s) = Some e"
  shows "state (doStatePreSendStore env s) = ASTATE_ERROR \<and>
     errorState (doStatePreSendStore env s) = Some e"
  using assms by (simp add: doStatePreSendStore_def fail_defs)

lemma doStateSendAttestation_attestationErr:
  assumes "sendAttestation env (Tx (attestation s)) = (t, Some e)"
  shows "state (doStateSendAttestation env s) = ASTATE_ERROR \<and>
     errorState (doStateSendAttestation env s) = Some e"
  using assms by (simp add: doStateSendAttestation_def fail_defs)

lemma doStateAwaitConfirmation_err:
  assumes "\<not> atimeHandleUnconfirmed s <s Since (Now env 0) (confirmTime s)"
    and "GetTransaction env (Txid (attestation s)) = (p, Some e)"
  shows "\<exists>s'. doStateAwaitConfirmation env s = Return s' \<and> state s' = ASTATE_ERROR \<and>
     errorState s' = Some e"
  using assms by (simp add: doStateAwaitConfirmation_def fail_defs)

lemma doStateAwaitConfirmation_errUpdate:
  assumes "\<not> atimeHandleUnconfirmed s <s Since (Now env 0) (confirmTime s)"
    and "GetTransaction env (Txid (attestation s)) = (Some r, None)"
    and "BlockHash r \<noteq> []"
    and "UpdateLatestAttestation env (UpdateInfo r ((attestation s)\<lparr>Confirmed := True\<rparr>)) = Some e"
  shows "\<exists>s'. doStateAwaitConfirmation env s = Return s' \<and> state s' = ASTATE_ERROR \<and>
     errorState s' = Some e"
  using assms by (simp add: doStateAwaitConfirmation_def fail_defs)

lemma doStateHandleUnconfirmed_bumpErr:
  assumes "bumpAttestationFees env (Tx (attestation s)) = (tx, Some e)"
  shows "state (doStateHandleUnconfirmed env s) = ASTATE_ERROR \<and>
     errorState (doStateHandleUnconfirmed env s) = Some e"
  using assms by (simp add: doStateHandleUnconfirmed_def fail_defs)

subsection \<open>An error that \<open>ASTATE_INIT\<close> does not check\<close>

text \<open>
  Claim C2. For every state and every error raised during that state's handler, the failure
  helper is to store the error and move the driver to \<open>ASTATE_ERROR\<close>, and the following tick
  is to enter \<open>ASTATE_INIT\<close>. The handlers do this for the errors they hand to \<open>setFailure\<close>,
  but \<open>stateInitUnconfirmed\<close> assigns the error of the wallet's \<open>GetRawTransaction\<close> to the
  blank identifier and reads the transaction through the pointer that came with it. The code
  is evaluated here at such an error: the service is in \<open>ASTATE_INIT\<close>, the wallet reports the
  unconfirmed transaction 9, the store returns its commitment, and \<open>GetRawTransaction\<close>
  returns nil with the error \<open>connection refused\<close>. The tick does not return: no error is
  stored, the state is still \<open>ASTATE_INIT\<close> and not \<open>ASTATE_ERROR\<close>, and the loop of \<open>Run\<close> ends
  in the panic with a second tick still due, so that no tick follows. When the same wallet
  fails one call earlier, in \<open>getUnconfirmedTx\<close>, whose error is checked, the run goes through
  \<open>ASTATE_ERROR\<close> with the error stored and back to \<open>ASTATE_INIT\<close>; and
  \<open>doStateAwaitConfirmation\<close> hands the error of the wallet's \<open>GetTransaction\<close>, which returns
  nil in the same way, to \<open>setFailure\<close> and ends in \<open>ASTATE_ERROR\<close>.
\<close>

theorem init_wallet_error_not_stored:
  "state exampleService = ASTATE_INIT \<and>
   getUnconfirmedTx nilWalletEnv = (True, 9, None) \<and>
   GetAttestationCommitment nilWalletEnv 9 [False] = (\<lparr>root = 0, leaves = []\<rparr>, None) \<and>
   GetRawTransaction nilWalletEnv 9 = (None, Some ''connection refused'') \<and>
   \<not> returned (doAttestation nilWalletEnv exampleService) \<and>
   errorState (outProc (doAttestation nilWalletEnv exampleService)) = None \<and>
   state (outProc (doAttestation nilWalletEnv exampleService)) = ASTATE_INIT \<and>
   Run nilWalletRun exampleService = Crashed (procOf (Run nilWalletRun exampleService)) \<and>
   errorState (procOf (Run nilWalletRun exampleService)) = None \<and>
   map state (Visited nilWalletRun exampleService) = [ASTATE_INIT] \<and>
   map state (Visited failingRun exampleService) = [ASTATE_INIT, ASTATE_ERROR, ASTATE_INIT] \<and>
   errorState (Visited failingRun exampleService ! 1) = Some ''connection refused'' \<and>
   state awaitingService = ASTATE_AWAIT_CONFIRMATION \<and>
   GetTransaction walletGoneEnv (Txid (attestation awaitingService)) =
     (None, Some ''connection refused'') \<and>
   returned (doAttestation walletGoneEnv awaitingService) \<and>
   state (outProc (doAttestation walletGoneEnv awaitingService)) = ASTATE_ERROR \<and>
   errorState (outProc (doAttestation walletGoneEnv awaitingService)) = Some ''connection refused''"
  by code_simp

subsection \<open>The delay in regtest mode\<close>

lemma doAttestation_isRegtest:
  "doAttestation env s = Return s' \<Longrightarrow> isRegtest s' = isRegtest s"
  by (cases "state s")
     (auto simp: doAttestation_simps handler_defs Let_def split: prod.splits option.splits if_splits)

lemma timerCase_regtest:
  assumes "isRegtest s" and "doAttestation env s = Return s1"
  shows "timerCase env s =
           Return (logmsg ''********** sleeping for: %s ...'' (s1\<lparr>attestDelay := 10 * Second\<rparr>))"
  using assms doAttestation_isRegtest[OF assms(2)]
  by (simp add: timerCase_def Let_def)

lemma timerCase_regtest_step:
  assumes "isRegtest s" and "timerCase env s = Return s'"
  shows "isRegtest s' \<and> attestDelay s' = 10 * Second"
proof -
  from timerCase_Return[OF assms(2)] obtain s1 where s1: "doAttestation env s = Return s1" by blast
  from timerCase_regtest[OF assms(1) s1] assms(2)
  have "s' = logmsg ''********** sleeping for: %s ...'' (s1\<lparr>attestDelay := 10 * Second\<rparr>)" by simp
  with doAttestation_isRegtest[OF s1] assms(1) show ?thesis
    by (simp add: logmsg_def emit_def)
qed

lemma RunStates_regtest:
  assumes "isRegtest s"
  shows "i < length (RunStates ts s) \<Longrightarrow>
         isRegtest (RunStates ts s ! i) \<and> (0 < i \<longrightarrow> attestDelay (RunStates ts s ! i) = 10 * Second)"
proof (induction i)
  case 0
  with assms show ?case by (simp add: RunStates_first)
next
  case (Suc i)
  then have "isRegtest (RunStates ts s ! i)" by simp
  moreover from RunStates_step[OF Suc.prems] obtain env where
    "timerCase env (RunStates ts s ! i) = Return (RunStates ts s ! Suc i)" by blast
  ultimately show ?case using timerCase_regtest_step by blast
qed

text \<open>
  Claim C6. In regtest mode, when the tick \<open>doAttestation\<close> returns, the timer case of \<open>Run\<close>
  replaces the delay that the handler has set by 10 seconds; and in a service constructed
  from a regtest configuration, the delay is 10 seconds at the top of every iteration of the
  loop after the first.
\<close>

theorem regtest_delay:
  "(\<forall>s1. isRegtest s \<and> doAttestation env s = Return s1 \<longrightarrow>
      timerCase env s =
        Return (logmsg ''********** sleeping for: %s ...'' (s1\<lparr>attestDelay := 10 * Second\<rparr>)) \<and>
      attestDelay (outProc (timerCase env s)) = 10 * Second) \<and>
   (NewAttestService parseHash config = Started s0 \<and> Regtest config \<longrightarrow>
      (\<forall>i. 0 < i \<and> i < length (Visited ts s0) \<longrightarrow>
           attestDelay (Visited ts s0 ! i) = 10 * Second))"
proof -
  have "timerCase env s =
        Return (logmsg ''********** sleeping for: %s ...'' (s1\<lparr>attestDelay := 10 * Second\<rparr>)) \<and>
      attestDelay (outProc (timerCase env s)) = 10 * Second"
    if "isRegtest s" "doAttestation env s = Return s1" for s1
    using timerCase_regtest[OF that] by (simp add: logmsg_def emit_def)
  moreover have "attestDelay (Visited ts s0 ! i) = 10 * Second"
    if start: "NewAttestService parseHash config = Started s0" and reg: "Regtest config"
      and i: "0 < i" "i < length (Visited ts s0)" for i
  proof -
    note s0 = NewAttestService_Started[OF start, THEN conjunct2]
    have "isRegtest s0 = Regtest config" by (subst s0) simp
    with reg have "isRegtest (s0\<lparr>attestDelay := 30 * Second\<rparr>)" by simp
    from RunStates_regtest[OF this, of i ts] i show ?thesis by (simp add: Visited_def)
  qed
  ultimately show ?thesis by blast
qed

lemma regtest_start: "NewAttestService exampleParse regtestConfig = Started regtestService"
proof -
  have p: "exampleParse (InitTx regtestConfig) = (Some 15, None)"
    by (simp add: exampleParse_def regtestConfig_def exampleConfig_def)
  show ?thesis
    unfolding NewAttestService_def p
    by (simp add: regtestConfig_def regtestService_def exampleConfig_def exampleService_def
          const_defs word_sless_alt)
qed

theorem regtest_delay_witness:
  "isRegtest regtestService \<and>
   returned (doAttestation exampleEnv regtestService) \<and>
   attestDelay (outProc (doAttestation exampleEnv regtestService)) = 5 * Second \<and>
   attestDelay (outProc (timerCase exampleEnv regtestService)) = 10 * Second \<and>
   NewAttestService exampleParse regtestConfig = Started regtestService \<and> Regtest regtestConfig \<and>
   3 < length (Visited exampleRun regtestService) \<and>
   attestDelay (Visited exampleRun regtestService ! 3) = 10 * Second"
proof -
  note T = regtest_delay [of regtestService exampleEnv exampleParse regtestConfig regtestService exampleRun]
  have reg: "isRegtest regtestService" by code_simp
  have r: "doAttestation exampleEnv regtestService =
             Return (outProc (doAttestation exampleEnv regtestService))"
    by code_simp
  have rr: "returned (doAttestation exampleEnv regtestService)" by code_simp
  have d: "attestDelay (outProc (doAttestation exampleEnv regtestService)) = 5 * Second"
    by code_simp
  have cfg: "Regtest regtestConfig" by code_simp
  have len: "3 < length (Visited exampleRun regtestService)" by code_simp
  have pos: "(0::nat) < 3" by simp
  from T reg r have a: "attestDelay (outProc (timerCase exampleEnv regtestService)) = 10 * Second"
    by blast
  from T regtest_start cfg len pos
  have b: "attestDelay (Visited exampleRun regtestService ! 3) = 10 * Second" by blast
  from reg rr d a regtest_start cfg len b show ?thesis by blast
qed

section \<open>The ticks in \<open>ASTATE_NEXT_COMMITMENT\<close> and \<open>ASTATE_AWAIT_CONFIRMATION\<close>\<close>

subsection \<open>The tick in \<open>ASTATE_NEXT_COMMITMENT\<close>\<close>

lemma doStateNextCommitment_same:
  assumes "GetClientCommitment env = (c, None)"
    and "GetCommitmentHash c = CommitmentHash (attestation s)"
  shows "doStateNextCommitment env s =
     s\<lparr>attestDelay := atimeNewAttestation s,
        trace := trace s @
          [Log ''*AttestService* NEW ATTESTATION COMMITMENT'', EvGetClientCommitment,
           Log ''********** received commitment hash: %s'',
           Log ''********** Skipping attestation - Client commitment already attested'']\<rparr>"
  using assms by (simp add: handler_defs Let_def)

lemma doStateNextCommitment_new:
  assumes "GetClientCommitment env = (c, None)"
    and "GetCommitmentHash c \<noteq> CommitmentHash (attestation s)"
  shows "doStateNextCommitment env s =
     s\<lparr>trace := trace s @
          [Log ''*AttestService* NEW ATTESTATION COMMITMENT'', EvGetClientCommitment,
           Log ''********** received commitment hash: %s'',
           EvSendNewHash (GetCommitmentHash c)],
        attestation := SetCommitment (Some c) NewAttestationDefault,
        state := ASTATE_NEW_ATTESTATION\<rparr>"
  using assms by (simp add: handler_defs Let_def)

text \<open>
  Claim C5. A tick in \<open>ASTATE_NEXT_COMMITMENT\<close> that fetches the latest commitment \<open>c\<close> from
  the store: when the root of \<open>c\<close> equals the commitment root of the current attestation, the
  state and the current attestation are unchanged, none of the events of the tick is a
  message to the signers, and the delay is \<open>atimeNewAttestation\<close>; when the roots differ, the
  new hash is sent to the signers, the current attestation is a fresh default attestation
  bound to \<open>c\<close>, and the state is \<open>ASTATE_NEW_ATTESTATION\<close>. (The delay is the one that the tick
  \<open>doAttestation\<close> leaves; see C6 for regtest mode.)
\<close>

theorem next_commitment_tick:
  assumes "state s = ASTATE_NEXT_COMMITMENT"
    and "GetClientCommitment env = (c, None)"
  shows "(GetCommitmentHash c = CommitmentHash (attestation s) \<longrightarrow>
           (\<exists>s' es. doAttestation env s = Return s' \<and>
              state s' = state s \<and> attestation s' = attestation s \<and>
              trace s' = trace s @ es \<and> (\<forall>e. e \<in> set es \<longrightarrow> \<not> isSignerSend e) \<and>
              attestDelay s' = atimeNewAttestation s)) \<and>
         (GetCommitmentHash c \<noteq> CommitmentHash (attestation s) \<longrightarrow>
           (\<exists>s' es. doAttestation env s = Return s' \<and>
              trace s' = trace s @ es \<and> EvSendNewHash (GetCommitmentHash c) \<in> set es \<and>
              attestation s' = SetCommitment (Some c) NewAttestationDefault \<and>
              CommitmentHash (attestation s') = GetCommitmentHash c \<and>
              state s' = ASTATE_NEW_ATTESTATION))"
proof (intro conjI impI)
  assume eq: "GetCommitmentHash c = CommitmentHash (attestation s)"
  let ?s1 = "s\<lparr>attestDelay := ATIME_FIXED\<rparr>"
  from eq have eq1: "GetCommitmentHash c = CommitmentHash (attestation ?s1)" by simp
  show "\<exists>s' es. doAttestation env s = Return s' \<and>
              state s' = state s \<and> attestation s' = attestation s \<and>
              trace s' = trace s @ es \<and> (\<forall>e. e \<in> set es \<longrightarrow> \<not> isSignerSend e) \<and>
              attestDelay s' = atimeNewAttestation s"
    by (rule exI[of _ "doStateNextCommitment env ?s1"],
        rule exI[of _ "[Log ''*AttestService* NEW ATTESTATION COMMITMENT'', EvGetClientCommitment,
           Log ''********** received commitment hash: %s'',
           Log ''********** Skipping attestation - Client commitment already attested'']"])
       (auto simp: doAttestation_simps(3)[OF assms(1)] doStateNextCommitment_same[OF assms(2) eq1])
next
  assume ne: "GetCommitmentHash c \<noteq> CommitmentHash (attestation s)"
  let ?s1 = "s\<lparr>attestDelay := ATIME_FIXED\<rparr>"
  from ne have ne1: "GetCommitmentHash c \<noteq> CommitmentHash (attestation ?s1)" by simp
  show "\<exists>s' es. doAttestation env s = Return s' \<and>
              trace s' = trace s @ es \<and> EvSendNewHash (GetCommitmentHash c) \<in> set es \<and>
              attestation s' = SetCommitment (Some c) NewAttestationDefault \<and>
              CommitmentHash (attestation s') = GetCommitmentHash c \<and>
              state s' = ASTATE_NEW_ATTESTATION"
    by (rule exI[of _ "doStateNextCommitment env ?s1"],
        rule exI[of _ "[Log ''*AttestService* NEW ATTESTATION COMMITMENT'', EvGetClientCommitment,
           Log ''********** received commitment hash: %s'',
           EvSendNewHash (GetCommitmentHash c)]"])
       (auto simp: doAttestation_simps(3)[OF assms(1)] doStateNextCommitment_new[OF assms(2) ne1]
          CommitmentHash_def SetCommitment_def)
qed


theorem next_commitment_tick_witness:
  "state nextCommitmentService = ASTATE_NEXT_COMMITMENT \<and>
   GetClientCommitment caughtUpEnv = (\<lparr>root = 0, leaves = []\<rparr>, None) \<and>
   GetCommitmentHash \<lparr>root = 0, leaves = []\<rparr> = CommitmentHash (attestation nextCommitmentService) \<and>
   state (outProc (doAttestation caughtUpEnv nextCommitmentService)) = ASTATE_NEXT_COMMITMENT \<and>
   attestDelay (outProc (doAttestation caughtUpEnv nextCommitmentService)) =
     atimeNewAttestation nextCommitmentService \<and>
   GetClientCommitment exampleEnv = (\<lparr>root = 5, leaves = [5]\<rparr>, None) \<and>
   GetCommitmentHash \<lparr>root = 5, leaves = [5]\<rparr> \<noteq> CommitmentHash (attestation nextCommitmentService) \<and>
   state (outProc (doAttestation exampleEnv nextCommitmentService)) = ASTATE_NEW_ATTESTATION \<and>
   CommitmentHash (attestation (outProc (doAttestation exampleEnv nextCommitmentService))) = 5"
proof -
  have st: "state nextCommitmentService = ASTATE_NEXT_COMMITMENT" by code_simp
  have c0: "GetClientCommitment caughtUpEnv = (\<lparr>root = 0, leaves = []\<rparr>, None)" by code_simp
  have eq: "GetCommitmentHash \<lparr>root = 0, leaves = []\<rparr> =
              CommitmentHash (attestation nextCommitmentService)" by code_simp
  have c5: "GetClientCommitment exampleEnv = (\<lparr>root = 5, leaves = [5]\<rparr>, None)" by code_simp
  have ne: "GetCommitmentHash \<lparr>root = 5, leaves = [5]\<rparr> \<noteq>
              CommitmentHash (attestation nextCommitmentService)" by code_simp
  have h5: "GetCommitmentHash \<lparr>root = 5, leaves = [5]\<rparr> = 5" by code_simp
  from next_commitment_tick [OF st c0] eq st
  have a: "state (outProc (doAttestation caughtUpEnv nextCommitmentService)) = ASTATE_NEXT_COMMITMENT \<and>
           attestDelay (outProc (doAttestation caughtUpEnv nextCommitmentService)) =
             atimeNewAttestation nextCommitmentService"
    by auto
  from next_commitment_tick [OF st c5] ne h5
  have b: "state (outProc (doAttestation exampleEnv nextCommitmentService)) = ASTATE_NEW_ATTESTATION \<and>
           CommitmentHash (attestation (outProc (doAttestation exampleEnv nextCommitmentService))) = 5"
    by auto
  from st c0 eq a c5 ne b show ?thesis by blast
qed

subsection \<open>The tick in \<open>ASTATE_AWAIT_CONFIRMATION\<close>\<close>

lemma await_timeout:
  assumes "atimeHandleUnconfirmed s <s Since (Now env 0) (confirmTime s)"
  shows "doStateAwaitConfirmation env s =
     Return (s\<lparr>trace := trace s @
                 [Log ''*AttestService* AWAITING CONFIRMATION txid: (%s) commitment: (%s)''],
               state := ASTATE_HANDLE_UNCONFIRMED\<rparr>)"
  using assms by (simp add: handler_defs Let_def)

lemma await_wallet_error:
  assumes "\<not> atimeHandleUnconfirmed s <s Since (Now env 0) (confirmTime s)"
    and "GetTransaction env (Txid (attestation s)) = (p, Some e)"
  shows "doStateAwaitConfirmation env s =
     Return (s\<lparr>trace := trace s @
                 [Log ''*AttestService* AWAITING CONFIRMATION txid: (%s) commitment: (%s)'',
                  EvGetTransaction (Txid (attestation s))],
               errorState := Some e, state := ASTATE_ERROR\<rparr>)"
  using assms by (simp add: handler_defs Let_def)

lemma await_unconfirmed:
  assumes "\<not> atimeHandleUnconfirmed s <s Since (Now env 0) (confirmTime s)"
    and "GetTransaction env (Txid (attestation s)) = (Some r, None)"
    and "BlockHash r = []"
  shows "doStateAwaitConfirmation env s =
     Return (s\<lparr>trace := trace s @
                 [Log ''*AttestService* AWAITING CONFIRMATION txid: (%s) commitment: (%s)'',
                  EvGetTransaction (Txid (attestation s))],
               attestDelay := ATIME_CONFIRMATION\<rparr>)"
  using assms by (simp add: handler_defs Let_def)

lemma await_confirmed:
  assumes "\<not> atimeHandleUnconfirmed s <s Since (Now env 0) (confirmTime s)"
    and "GetTransaction env (Txid (attestation s)) = (Some r, None)"
    and "BlockHash r \<noteq> []"
    and "UpdateLatestAttestation env (UpdateInfo r ((attestation s)\<lparr>Confirmed := True\<rparr>)) = None"
  shows "doStateAwaitConfirmation env s =
     Return (s\<lparr>attestation := UpdateInfo r ((attestation s)\<lparr>Confirmed := True\<rparr>),
               trace := trace s @
                 [Log ''*AttestService* AWAITING CONFIRMATION txid: (%s) commitment: (%s)'',
                  EvGetTransaction (Txid (attestation s)),
                  Log ''********** attestation confirmed with txid: (%s)'',
                  EvUpdateLatestAttestation (UpdateInfo r ((attestation s)\<lparr>Confirmed := True\<rparr>)) None,
                  EvResetFee (isRegtest s),
                  EvSendConfirmedHash (CommitmentHash (attestation s))],
               state := ASTATE_NEXT_COMMITMENT,
               attestDelay := atimeNewAttestation s - Since (Now env 1) (confirmTime s)\<rparr>)"
  using assms by (simp add: handler_defs Let_def CommitmentHash_def UpdateInfo_def)

lemma await_store_error:
  assumes "\<not> atimeHandleUnconfirmed s <s Since (Now env 0) (confirmTime s)"
    and "GetTransaction env (Txid (attestation s)) = (Some r, None)"
    and "BlockHash r \<noteq> []"
    and "UpdateLatestAttestation env (UpdateInfo r ((attestation s)\<lparr>Confirmed := True\<rparr>)) = Some e"
  shows "doStateAwaitConfirmation env s =
     Return (s\<lparr>attestation := UpdateInfo r ((attestation s)\<lparr>Confirmed := True\<rparr>),
               trace := trace s @
                 [Log ''*AttestService* AWAITING CONFIRMATION txid: (%s) commitment: (%s)'',
                  EvGetTransaction (Txid (attestation s)),
                  Log ''********** attestation confirmed with txid: (%s)'',
                  EvUpdateLatestAttestation (UpdateInfo r ((attestation s)\<lparr>Confirmed := True\<rparr>)) (Some e)],
               errorState := Some e, state := ASTATE_ERROR\<rparr>)"
  using assms by (simp add: handler_defs Let_def)


text \<open>
  Claim C4, as amended. A tick in \<open>ASTATE_AWAIT_CONFIRMATION\<close>:
  \<^item> when the time since \<open>confirmTime\<close> exceeds \<open>atimeHandleUnconfirmed\<close>, the state becomes
    \<open>ASTATE_HANDLE_UNCONFIRMED\<close> and the only event of the tick is a log line (no wallet query);
  \<^item> otherwise the wallet is asked for the transaction. When the query returns an error, the
    state becomes \<open>ASTATE_ERROR\<close> with that error. When it returns a result with an empty block
    hash, the state is unchanged and the delay is \<open>ATIME_CONFIRMATION\<close>. When it returns a
    result with a non-empty block hash, the attestation is marked confirmed, the block
    metadata is copied and the store's \<open>UpdateLatestAttestation\<close> is called with it; when the
    store accepts the update, the fee policy is reset, the confirmed hash is sent to the
    signers, the state becomes \<open>ASTATE_NEXT_COMMITMENT\<close> and the delay is \<open>atimeNewAttestation\<close>
    minus the time since \<open>confirmTime\<close> (read again at that point; a difference of
    \<open>Duration\<close>s); when the store returns an error, nothing more is done and the state becomes
    \<open>ASTATE_ERROR\<close> with that error.

  The delays are the ones that the tick \<open>doAttestation\<close> leaves; see C6 for regtest mode.
\<close>

theorem await_confirmation_tick:
  assumes "state s = ASTATE_AWAIT_CONFIRMATION"
  shows
    "(atimeHandleUnconfirmed s <s Since (Now env 0) (confirmTime s) \<longrightarrow>
        (\<exists>s'. doAttestation env s = Return s' \<and> state s' = ASTATE_HANDLE_UNCONFIRMED \<and>
           trace s' = trace s @
             [Log ''*AttestService* AWAITING CONFIRMATION txid: (%s) commitment: (%s)''])) \<and>
     (\<not> atimeHandleUnconfirmed s <s Since (Now env 0) (confirmTime s) \<longrightarrow>
        (\<forall>p e. GetTransaction env (Txid (attestation s)) = (p, Some e) \<longrightarrow>
           (\<exists>s'. doAttestation env s = Return s' \<and> state s' = ASTATE_ERROR \<and>
              errorState s' = Some e)) \<and>
        (\<forall>r. GetTransaction env (Txid (attestation s)) = (Some r, None) \<and> BlockHash r = [] \<longrightarrow>
           (\<exists>s'. doAttestation env s = Return s' \<and> state s' = state s \<and>
              attestDelay s' = ATIME_CONFIRMATION)) \<and>
        (\<forall>r. GetTransaction env (Txid (attestation s)) = (Some r, None) \<and> BlockHash r \<noteq> [] \<longrightarrow>
           (\<exists>s' a. doAttestation env s = Return s' \<and>
              a = UpdateInfo r ((attestation s)\<lparr>Confirmed := True\<rparr>) \<and>
              attestation s' = a \<and> Confirmed a \<and>
              InfoBlockhash (Info a) = BlockHash r \<and> InfoTime (Info a) = BlockTime r \<and>
              EvUpdateLatestAttestation a (UpdateLatestAttestation env a) \<in> set (trace s') \<and>
              (UpdateLatestAttestation env a = None \<longrightarrow>
                 trace s' = trace s @
                   [Log ''*AttestService* AWAITING CONFIRMATION txid: (%s) commitment: (%s)'',
                    EvGetTransaction (Txid (attestation s)),
                    Log ''********** attestation confirmed with txid: (%s)'',
                    EvUpdateLatestAttestation a None,
                    EvResetFee (isRegtest s),
                    EvSendConfirmedHash (CommitmentHash (attestation s))] \<and>
                 state s' = ASTATE_NEXT_COMMITMENT \<and>
                 attestDelay s' = atimeNewAttestation s - Since (Now env 1) (confirmTime s)) \<and>
              (\<forall>e. UpdateLatestAttestation env a = Some e \<longrightarrow>
                 trace s' = trace s @
                   [Log ''*AttestService* AWAITING CONFIRMATION txid: (%s) commitment: (%s)'',
                    EvGetTransaction (Txid (attestation s)),
                    Log ''********** attestation confirmed with txid: (%s)'',
                    EvUpdateLatestAttestation a (Some e)] \<and>
                 state s' = ASTATE_ERROR \<and> errorState s' = Some e))))"
proof -
  let ?s1 = "s\<lparr>attestDelay := ATIME_FIXED\<rparr>"
  note d = doAttestation_simps(8)[OF assms, of env]
  have A: "\<exists>s'. doAttestation env s = Return s' \<and> state s' = ASTATE_HANDLE_UNCONFIRMED \<and>
           trace s' = trace s @
             [Log ''*AttestService* AWAITING CONFIRMATION txid: (%s) commitment: (%s)'']"
    if "atimeHandleUnconfirmed s <s Since (Now env 0) (confirmTime s)"
    using await_timeout[of ?s1 env] that by (simp add: d)
  have B: "\<exists>s'. doAttestation env s = Return s' \<and> state s' = ASTATE_ERROR \<and> errorState s' = Some e"
    if "\<not> atimeHandleUnconfirmed s <s Since (Now env 0) (confirmTime s)"
      "GetTransaction env (Txid (attestation s)) = (p, Some e)" for p e
    using await_wallet_error[of ?s1 env p e] that by (simp add: d)
  have C: "\<exists>s'. doAttestation env s = Return s' \<and> state s' = state s \<and>
              attestDelay s' = ATIME_CONFIRMATION"
    if "\<not> atimeHandleUnconfirmed s <s Since (Now env 0) (confirmTime s)"
      "GetTransaction env (Txid (attestation s)) = (Some r, None)" "BlockHash r = []" for r
    using await_unconfirmed[of ?s1 env r] that by (simp add: d)
  have D: "\<exists>s' a. doAttestation env s = Return s' \<and>
              a = UpdateInfo r ((attestation s)\<lparr>Confirmed := True\<rparr>) \<and>
              attestation s' = a \<and> Confirmed a \<and>
              InfoBlockhash (Info a) = BlockHash r \<and> InfoTime (Info a) = BlockTime r \<and>
              EvUpdateLatestAttestation a (UpdateLatestAttestation env a) \<in> set (trace s') \<and>
              (UpdateLatestAttestation env a = None \<longrightarrow>
                 trace s' = trace s @
                   [Log ''*AttestService* AWAITING CONFIRMATION txid: (%s) commitment: (%s)'',
                    EvGetTransaction (Txid (attestation s)),
                    Log ''********** attestation confirmed with txid: (%s)'',
                    EvUpdateLatestAttestation a None,
                    EvResetFee (isRegtest s),
                    EvSendConfirmedHash (CommitmentHash (attestation s))] \<and>
                 state s' = ASTATE_NEXT_COMMITMENT \<and>
                 attestDelay s' = atimeNewAttestation s - Since (Now env 1) (confirmTime s)) \<and>
              (\<forall>e. UpdateLatestAttestation env a = Some e \<longrightarrow>
                 trace s' = trace s @
                   [Log ''*AttestService* AWAITING CONFIRMATION txid: (%s) commitment: (%s)'',
                    EvGetTransaction (Txid (attestation s)),
                    Log ''********** attestation confirmed with txid: (%s)'',
                    EvUpdateLatestAttestation a (Some e)] \<and>
                 state s' = ASTATE_ERROR \<and> errorState s' = Some e)"
    if h: "\<not> atimeHandleUnconfirmed s <s Since (Now env 0) (confirmTime s)"
      "GetTransaction env (Txid (attestation s)) = (Some r, None)" "BlockHash r \<noteq> []" for r
  proof (cases "UpdateLatestAttestation env (UpdateInfo r ((attestation s)\<lparr>Confirmed := True\<rparr>))")
    case None
    with await_confirmed[of ?s1 env r] h show ?thesis
      by (simp add: d UpdateInfo_def)
  next
    case (Some e)
    with await_store_error[of ?s1 env r e] h show ?thesis
      by (simp add: d UpdateInfo_def)
  qed
  from A B C D show ?thesis by blast
qed

text \<open>
  The claim as stated fails when the store refuses the update: the wallet reports a
  non-empty block hash within \<open>atimeHandleUnconfirmed\<close>, and the tick ends in \<open>ASTATE_ERROR\<close>,
  with no reset of the fee policy and no confirmed hash sent to the signers.
\<close>

theorem await_confirmation_counterexample:
  "state awaitingService = ASTATE_AWAIT_CONFIRMATION \<and>
   \<not> atimeHandleUnconfirmed awaitingService <s
       Since (Now storeDownEnv 0) (confirmTime awaitingService) \<and>
   GetTransaction storeDownEnv (Txid (attestation awaitingService)) =
     (Some \<lparr>BlockHash = ''00ab'', BlockTime = 1\<rparr>, None) \<and>
   BlockHash \<lparr>BlockHash = ''00ab'', BlockTime = 1\<rparr> \<noteq> [] \<and>
   returned (doAttestation storeDownEnv awaitingService) \<and>
   state (outProc (doAttestation storeDownEnv awaitingService)) = ASTATE_ERROR \<and>
   state (outProc (doAttestation storeDownEnv awaitingService)) \<noteq> ASTATE_NEXT_COMMITMENT \<and>
   EvResetFee False \<notin> set (trace (outProc (doAttestation storeDownEnv awaitingService))) \<and>
   EvSendConfirmedHash 5 \<notin> set (trace (outProc (doAttestation storeDownEnv awaitingService)))"
  by code_simp

theorem await_confirmation_tick_witness:
  "state awaitingService = ASTATE_AWAIT_CONFIRMATION \<and>
   atimeHandleUnconfirmed awaitingService <s Since (Now lateEnv 0) (confirmTime awaitingService) \<and>
   state (outProc (doAttestation lateEnv awaitingService)) = ASTATE_HANDLE_UNCONFIRMED \<and>
   \<not> atimeHandleUnconfirmed awaitingService <s
       Since (Now exampleEnv 0) (confirmTime awaitingService) \<and>
   GetTransaction exampleEnv (Txid (attestation awaitingService)) =
     (Some \<lparr>BlockHash = ''00ab'', BlockTime = 1\<rparr>, None) \<and>
   UpdateLatestAttestation exampleEnv
     (UpdateInfo \<lparr>BlockHash = ''00ab'', BlockTime = 1\<rparr>
        ((attestation awaitingService)\<lparr>Confirmed := True\<rparr>)) = None \<and>
   state (outProc (doAttestation exampleEnv awaitingService)) = ASTATE_NEXT_COMMITMENT \<and>
   attestDelay (outProc (doAttestation exampleEnv awaitingService)) =
     atimeNewAttestation awaitingService - Since (Now exampleEnv 1) (confirmTime awaitingService) \<and>
   \<not> atimeHandleUnconfirmed awaitingService <s
       Since (Now unminedEnv 0) (confirmTime awaitingService) \<and>
   GetTransaction unminedEnv (Txid (attestation awaitingService)) =
     (Some \<lparr>BlockHash = [], BlockTime = 0\<rparr>, None) \<and>
   state (outProc (doAttestation unminedEnv awaitingService)) = ASTATE_AWAIT_CONFIRMATION \<and>
   attestDelay (outProc (doAttestation unminedEnv awaitingService)) = ATIME_CONFIRMATION"
proof -
  have st: "state awaitingService = ASTATE_AWAIT_CONFIRMATION" by code_simp
  have late: "atimeHandleUnconfirmed awaitingService <s
                Since (Now lateEnv 0) (confirmTime awaitingService)" by code_simp
  have intime: "\<not> atimeHandleUnconfirmed awaitingService <s
                Since (Now exampleEnv 0) (confirmTime awaitingService)" by code_simp
  have intime2: "\<not> atimeHandleUnconfirmed awaitingService <s
                Since (Now unminedEnv 0) (confirmTime awaitingService)" by code_simp
  have w: "GetTransaction exampleEnv (Txid (attestation awaitingService)) =
             (Some \<lparr>BlockHash = ''00ab'', BlockTime = 1\<rparr>, None)" by code_simp
  have w2: "GetTransaction unminedEnv (Txid (attestation awaitingService)) =
             (Some \<lparr>BlockHash = [], BlockTime = 0\<rparr>, None)" by code_simp
  have bh: "BlockHash \<lparr>BlockHash = ''00ab'', BlockTime = 1\<rparr> \<noteq> []" by simp
  have bh2: "BlockHash \<lparr>BlockHash = [], BlockTime = 0\<rparr> = []" by simp
  have u: "UpdateLatestAttestation exampleEnv
     (UpdateInfo \<lparr>BlockHash = ''00ab'', BlockTime = 1\<rparr>
        ((attestation awaitingService)\<lparr>Confirmed := True\<rparr>)) = None"
    by (simp add: exampleEnv_def)
  from await_confirmation_tick [OF st, of lateEnv] late
  have a: "state (outProc (doAttestation lateEnv awaitingService)) = ASTATE_HANDLE_UNCONFIRMED"
    by auto
  from await_confirmation_tick [OF st, of exampleEnv] intime w bh u
  have b: "state (outProc (doAttestation exampleEnv awaitingService)) = ASTATE_NEXT_COMMITMENT \<and>
     attestDelay (outProc (doAttestation exampleEnv awaitingService)) =
       atimeNewAttestation awaitingService - Since (Now exampleEnv 1) (confirmTime awaitingService)"
    by auto
  from await_confirmation_tick [OF st, of unminedEnv] intime2 w2 bh2 st
  have c: "state (outProc (doAttestation unminedEnv awaitingService)) = ASTATE_AWAIT_CONFIRMATION \<and>
     attestDelay (outProc (doAttestation unminedEnv awaitingService)) = ATIME_CONFIRMATION"
    by auto
  from st late a intime w u b intime2 w2 c show ?thesis by blast
qed

section \<open>Construction: timing values and \<open>InitTx\<close>\<close>

subsection \<open>Minutes as durations\<close>

lemma sint_Minute: "sint Minute = 60000000000"
  by (simp add: Minute_def Second_def)

lemma sint_minutes:
  fixes m :: "64 word"
  assumes "0 < sint m" and "sint m \<le> 153722867"
  shows "sint (m * Minute) = sint m * 60000000000"
proof -
  have "sint (m * Minute) = signed_take_bit 63 (sint m * sint Minute)"
    by (simp add: sint_word_ariths)
  also have "\<dots> = sint m * sint Minute"
  proof (rule signed_take_bit_int_eq_self)
    from assms show "- (2 ^ 63) \<le> sint m * sint Minute" by (simp add: sint_Minute)
    from assms have "sint m * 60000000000 \<le> 153722867 * 60000000000" by simp
    then show "sint m * sint Minute < 2 ^ 63" by (simp add: sint_Minute)
  qed
  finally show ?thesis by (simp add: sint_Minute)
qed

lemma not_positive_iff: "\<not> 0 <s (m :: 64 word) \<longleftrightarrow> sint m \<le> 0"
  by (simp add: word_sless_alt not_less)

lemma NewAttestService_timing:
  assumes "NewAttestService parseHash config = Started s"
  shows "atimeNewAttestation s =
           (if 0 <s NewAttestationMinutes (Timing config)
            then NewAttestationMinutes (Timing config) * Minute
            else DEFAULT_ATIME_NEW_ATTESTATION)"
    and "atimeHandleUnconfirmed s =
           (if 0 <s HandleUnconfirmedMinutes (Timing config)
            then HandleUnconfirmedMinutes (Timing config) * Minute
            else DEFAULT_ATIME_HANDLE_UNCONFIRMED)"
    and "trace s =
           (if 0 <s NewAttestationMinutes (Timing config) then []
            else [Log WARNING_INVALID_ATIME_NEW_ATTESTATION_ARG])
           @ [Log ''Time new attestation set to: %v'']
           @ (if 0 <s HandleUnconfirmedMinutes (Timing config) then []
              else [Log WARNING_INVALID_ATIME_HANDLE_UNCONFIRMED_ARG])
           @ [Log ''Time handle unconfirmed set to: %v'']"
proof -
  note s = NewAttestService_Started[OF assms, THEN conjunct2]
  show "atimeNewAttestation s =
           (if 0 <s NewAttestationMinutes (Timing config)
            then NewAttestationMinutes (Timing config) * Minute
            else DEFAULT_ATIME_NEW_ATTESTATION)"
    by (subst s) (simp del: if_split)
  show "atimeHandleUnconfirmed s =
           (if 0 <s HandleUnconfirmedMinutes (Timing config)
            then HandleUnconfirmedMinutes (Timing config) * Minute
            else DEFAULT_ATIME_HANDLE_UNCONFIRMED)"
    by (subst s) simp
  show "trace s =
           (if 0 <s NewAttestationMinutes (Timing config) then []
            else [Log WARNING_INVALID_ATIME_NEW_ATTESTATION_ARG])
           @ [Log ''Time new attestation set to: %v'']
           @ (if 0 <s HandleUnconfirmedMinutes (Timing config) then []
              else [Log WARNING_INVALID_ATIME_HANDLE_UNCONFIRMED_ARG])
           @ [Log ''Time handle unconfirmed set to: %v'']"
    by (subst s) simp
qed

lemma warnings_differ:
  "WARNING_INVALID_ATIME_NEW_ATTESTATION_ARG \<noteq> WARNING_INVALID_ATIME_HANDLE_UNCONFIRMED_ARG"
  "WARNING_INVALID_ATIME_NEW_ATTESTATION_ARG \<noteq> ''Time new attestation set to: %v''"
  "WARNING_INVALID_ATIME_NEW_ATTESTATION_ARG \<noteq> ''Time handle unconfirmed set to: %v''"
  "WARNING_INVALID_ATIME_HANDLE_UNCONFIRMED_ARG \<noteq> ''Time new attestation set to: %v''"
  "WARNING_INVALID_ATIME_HANDLE_UNCONFIRMED_ARG \<noteq> ''Time handle unconfirmed set to: %v''"
  by (simp_all add: WARNING_INVALID_ATIME_NEW_ATTESTATION_ARG_def
        WARNING_INVALID_ATIME_HANDLE_UNCONFIRMED_ARG_def)

text \<open>
  Claim C7, as amended. At the construction of the service, when \<open>NewAttestationMinutes\<close> is
  at most 0 the configured value is ignored, \<open>atimeNewAttestation\<close> is the default of 60
  minutes and the warning is logged; when it is greater than 0, no warning is logged and
  \<open>atimeNewAttestation\<close> is the \<open>int64\<close> product of the value and \<open>time.Minute\<close>, which is that
  many minutes for every value up to 153722867 (the largest number of minutes whose count of
  nanoseconds fits an \<open>int64\<close>). The same holds for \<open>HandleUnconfirmedMinutes\<close> and
  \<open>atimeHandleUnconfirmed\<close>.
\<close>

theorem timing_from_config:
  assumes "NewAttestService parseHash config = Started s"
  shows
    "(sint (NewAttestationMinutes (Timing config)) \<le> 0 \<longrightarrow>
        atimeNewAttestation s = DEFAULT_ATIME_NEW_ATTESTATION \<and>
        sint (atimeNewAttestation s) = 60 * 60000000000 \<and>
        Log WARNING_INVALID_ATIME_NEW_ATTESTATION_ARG \<in> set (trace s)) \<and>
     (0 < sint (NewAttestationMinutes (Timing config)) \<longrightarrow>
        atimeNewAttestation s = NewAttestationMinutes (Timing config) * Minute \<and>
        Log WARNING_INVALID_ATIME_NEW_ATTESTATION_ARG \<notin> set (trace s)) \<and>
     (0 < sint (NewAttestationMinutes (Timing config)) \<and>
      sint (NewAttestationMinutes (Timing config)) \<le> 153722867 \<longrightarrow>
        sint (atimeNewAttestation s) = sint (NewAttestationMinutes (Timing config)) * 60000000000) \<and>
     (sint (HandleUnconfirmedMinutes (Timing config)) \<le> 0 \<longrightarrow>
        atimeHandleUnconfirmed s = DEFAULT_ATIME_HANDLE_UNCONFIRMED \<and>
        sint (atimeHandleUnconfirmed s) = 60 * 60000000000 \<and>
        Log WARNING_INVALID_ATIME_HANDLE_UNCONFIRMED_ARG \<in> set (trace s)) \<and>
     (0 < sint (HandleUnconfirmedMinutes (Timing config)) \<longrightarrow>
        atimeHandleUnconfirmed s = HandleUnconfirmedMinutes (Timing config) * Minute \<and>
        Log WARNING_INVALID_ATIME_HANDLE_UNCONFIRMED_ARG \<notin> set (trace s)) \<and>
     (0 < sint (HandleUnconfirmedMinutes (Timing config)) \<and>
      sint (HandleUnconfirmedMinutes (Timing config)) \<le> 153722867 \<longrightarrow>
        sint (atimeHandleUnconfirmed s) = sint (HandleUnconfirmedMinutes (Timing config)) * 60000000000)"
proof -
  note t = NewAttestService_timing[OF assms]
  have d1: "sint DEFAULT_ATIME_NEW_ATTESTATION = 60 * 60000000000"
    by (simp add: DEFAULT_ATIME_NEW_ATTESTATION_def Minute_def Second_def)
  have d2: "sint DEFAULT_ATIME_HANDLE_UNCONFIRMED = 60 * 60000000000"
    by (simp add: DEFAULT_ATIME_HANDLE_UNCONFIRMED_def Minute_def Second_def)
  have A: "atimeNewAttestation s = DEFAULT_ATIME_NEW_ATTESTATION \<and>
        sint (atimeNewAttestation s) = 60 * 60000000000 \<and>
        Log WARNING_INVALID_ATIME_NEW_ATTESTATION_ARG \<in> set (trace s)"
    if "sint (NewAttestationMinutes (Timing config)) \<le> 0"
  proof -
    from that have n: "\<not> 0 <s NewAttestationMinutes (Timing config)" by (simp add: not_positive_iff)
    from n show ?thesis unfolding t by (simp add: d1 del: if_split)
  qed
  have B: "atimeNewAttestation s = NewAttestationMinutes (Timing config) * Minute \<and>
        Log WARNING_INVALID_ATIME_NEW_ATTESTATION_ARG \<notin> set (trace s)"
    if "0 < sint (NewAttestationMinutes (Timing config))"
  proof -
    from that have p: "0 <s NewAttestationMinutes (Timing config)" by (simp add: word_sless_alt)
    from p show ?thesis unfolding t by (simp add: warnings_differ warnings_differ[symmetric])
  qed
  have C: "sint (atimeNewAttestation s) = sint (NewAttestationMinutes (Timing config)) * 60000000000"
    if "0 < sint (NewAttestationMinutes (Timing config))"
       "sint (NewAttestationMinutes (Timing config)) \<le> 153722867"
    using B[OF that(1)] sint_minutes[OF that] by simp
  have D: "atimeHandleUnconfirmed s = DEFAULT_ATIME_HANDLE_UNCONFIRMED \<and>
        sint (atimeHandleUnconfirmed s) = 60 * 60000000000 \<and>
        Log WARNING_INVALID_ATIME_HANDLE_UNCONFIRMED_ARG \<in> set (trace s)"
    if "sint (HandleUnconfirmedMinutes (Timing config)) \<le> 0"
  proof -
    from that have n: "\<not> 0 <s HandleUnconfirmedMinutes (Timing config)" by (simp add: not_positive_iff)
    from n show ?thesis unfolding t by (simp add: d2 del: if_split)
  qed
  have E: "atimeHandleUnconfirmed s = HandleUnconfirmedMinutes (Timing config) * Minute \<and>
        Log WARNING_INVALID_ATIME_HANDLE_UNCONFIRMED_ARG \<notin> set (trace s)"
    if "0 < sint (HandleUnconfirmedMinutes (Timing config))"
  proof -
    from that have p: "0 <s HandleUnconfirmedMinutes (Timing config)" by (simp add: word_sless_alt)
    from p show ?thesis unfolding t by (simp add: warnings_differ warnings_differ[symmetric])
  qed
  have F: "sint (atimeHandleUnconfirmed s) = sint (HandleUnconfirmedMinutes (Timing config)) * 60000000000"
    if "0 < sint (HandleUnconfirmedMinutes (Timing config))"
       "sint (HandleUnconfirmedMinutes (Timing config)) \<le> 153722867"
    using E[OF that(1)] sint_minutes[OF that] by simp
  from A B C D E F show ?thesis by blast
qed

lemma invalid_timing_start:
  "NewAttestService exampleParse invalidTimingConfig = Started defaultTimingService"
proof -
  have p: "exampleParse (InitTx invalidTimingConfig) = (Some 15, None)"
    by (simp add: exampleParse_def invalidTimingConfig_def exampleConfig_def)
  show ?thesis
    unfolding NewAttestService_def p
    by (simp add: invalidTimingConfig_def defaultTimingService_def exampleConfig_def
          exampleService_def const_defs word_sless_alt)
qed

lemma overflow_start:
  "NewAttestService exampleParse overflowConfig = Started overflowService"
proof -
  have p: "exampleParse (InitTx overflowConfig) = (Some 15, None)"
    by (simp add: exampleParse_def overflowConfig_def exampleConfig_def)
  show ?thesis
    unfolding NewAttestService_def p
    by (simp add: overflowConfig_def overflowService_def exampleConfig_def
          exampleService_def const_defs word_sless_alt)
qed

text \<open>
  The claim as stated fails for 153722868 minutes (a value that a 32-bit \<open>int\<close> holds as
  well): the value is greater than 0, the product with \<open>time.Minute\<close> wraps around, and
  \<open>atimeNewAttestation\<close> is a negative duration and not that many minutes.
\<close>

theorem timing_from_config_counterexample:
  "NewAttestService exampleParse overflowConfig = Started overflowService \<and>
   0 < sint (NewAttestationMinutes (Timing overflowConfig)) \<and>
   sint (NewAttestationMinutes (Timing overflowConfig)) * 60000000000 = 9223372080000000000 \<and>
   sint (atimeNewAttestation overflowService) = - 9223371993709551616 \<and>
   sint (atimeNewAttestation overflowService) \<noteq>
     sint (NewAttestationMinutes (Timing overflowConfig)) * 60000000000"
proof -
  have a: "0 < sint (NewAttestationMinutes (Timing overflowConfig))"
    by (simp add: overflowConfig_def)
  have b: "sint (NewAttestationMinutes (Timing overflowConfig)) * 60000000000 = 9223372080000000000"
    by (simp add: overflowConfig_def)
  have c: "sint (atimeNewAttestation overflowService) = - 9223371993709551616"
    by (simp add: overflowService_def Minute_def Second_def)
  from overflow_start a b c show ?thesis by simp
qed

theorem timing_from_config_witness:
  "NewAttestService exampleParse invalidTimingConfig = Started defaultTimingService \<and>
   sint (NewAttestationMinutes (Timing invalidTimingConfig)) \<le> 0 \<and>
   sint (HandleUnconfirmedMinutes (Timing invalidTimingConfig)) \<le> 0 \<and>
   sint (atimeNewAttestation defaultTimingService) = 60 * 60000000000 \<and>
   sint (atimeHandleUnconfirmed defaultTimingService) = 60 * 60000000000 \<and>
   Log WARNING_INVALID_ATIME_NEW_ATTESTATION_ARG \<in> set (trace defaultTimingService) \<and>
   Log WARNING_INVALID_ATIME_HANDLE_UNCONFIRMED_ARG \<in> set (trace defaultTimingService) \<and>
   NewAttestService exampleParse exampleConfig = Started exampleService \<and>
   0 < sint (NewAttestationMinutes (Timing exampleConfig)) \<and>
   sint (NewAttestationMinutes (Timing exampleConfig)) \<le> 153722867 \<and>
   0 < sint (HandleUnconfirmedMinutes (Timing exampleConfig)) \<and>
   sint (HandleUnconfirmedMinutes (Timing exampleConfig)) \<le> 153722867 \<and>
   sint (atimeNewAttestation exampleService) = 10 * 60000000000 \<and>
   sint (atimeHandleUnconfirmed exampleService) = 60 * 60000000000 \<and>
   Log WARNING_INVALID_ATIME_NEW_ATTESTATION_ARG \<notin> set (trace exampleService)"
proof -
  have i1: "sint (NewAttestationMinutes (Timing invalidTimingConfig)) \<le> 0"
    by (simp add: invalidTimingConfig_def)
  have i2: "sint (HandleUnconfirmedMinutes (Timing invalidTimingConfig)) \<le> 0"
    by (simp add: invalidTimingConfig_def)
  have e1: "0 < sint (NewAttestationMinutes (Timing exampleConfig))"
    and e2: "sint (NewAttestationMinutes (Timing exampleConfig)) \<le> 153722867"
    and e3: "0 < sint (HandleUnconfirmedMinutes (Timing exampleConfig))"
    and e4: "sint (HandleUnconfirmedMinutes (Timing exampleConfig)) \<le> 153722867"
    and e5: "sint (NewAttestationMinutes (Timing exampleConfig)) = 10"
    and e6: "sint (HandleUnconfirmedMinutes (Timing exampleConfig)) = 60"
    by (simp_all add: exampleConfig_def)
  from timing_from_config [OF invalid_timing_start] i1 i2
  have a: "sint (atimeNewAttestation defaultTimingService) = 60 * 60000000000 \<and>
     sint (atimeHandleUnconfirmed defaultTimingService) = 60 * 60000000000 \<and>
     Log WARNING_INVALID_ATIME_NEW_ATTESTATION_ARG \<in> set (trace defaultTimingService) \<and>
     Log WARNING_INVALID_ATIME_HANDLE_UNCONFIRMED_ARG \<in> set (trace defaultTimingService)"
    by blast
  from timing_from_config [OF example_start] e1 e2 e3 e4
  have "sint (atimeNewAttestation exampleService) =
          sint (NewAttestationMinutes (Timing exampleConfig)) * 60000000000 \<and>
        sint (atimeHandleUnconfirmed exampleService) =
          sint (HandleUnconfirmedMinutes (Timing exampleConfig)) * 60000000000 \<and>
        Log WARNING_INVALID_ATIME_NEW_ATTESTATION_ARG \<notin> set (trace exampleService)"
    by blast
  with e5 e6 have b: "sint (atimeNewAttestation exampleService) = 10 * 60000000000 \<and>
     sint (atimeHandleUnconfirmed exampleService) = 60 * 60000000000 \<and>
     Log WARNING_INVALID_ATIME_NEW_ATTESTATION_ARG \<notin> set (trace exampleService)"
    by simp
  from invalid_timing_start i1 i2 a example_start e1 e2 e3 e4 b show ?thesis by blast
qed

subsection \<open>The check of \<open>InitTx\<close>\<close>

text \<open>
  Claim C8. \<open>NewAttestService\<close> hands the configured \<open>InitTx\<close> to the hash parser first: for
  every value that the parser rejects (it returns an error), the constructor ends the process
  with the fatal message and returns no service, so that no tick can run; for every value
  that the parser accepts, the constructor returns the service, in \<open>ASTATE_INIT\<close>.
\<close>

theorem init_tx_checked:
  "(snd (parseHash (InitTx config)) \<noteq> None \<longrightarrow>
      NewAttestService parseHash config = Fatal ''Incorrect initial transaction id %s'') \<and>
   (snd (parseHash (InitTx config)) = None \<longrightarrow>
      (\<exists>s. NewAttestService parseHash config = Started s \<and> state s = ASTATE_INIT))"
  by (cases "parseHash (InitTx config)") (auto simp: NewAttestService_def Let_def)

theorem init_tx_checked_witness:
  "snd (exampleParse (InitTx badInitTxConfig)) \<noteq> None \<and>
   NewAttestService exampleParse badInitTxConfig = Fatal ''Incorrect initial transaction id %s'' \<and>
   snd (exampleParse (InitTx exampleConfig)) = None \<and>
   NewAttestService exampleParse exampleConfig = Started exampleService"
proof -
  have bad: "snd (exampleParse (InitTx badInitTxConfig)) \<noteq> None"
    by (simp add: exampleParse_def badInitTxConfig_def)
  have good: "snd (exampleParse (InitTx exampleConfig)) = None"
    by (simp add: example_parse)
  from init_tx_checked [of exampleParse badInitTxConfig] bad
  have "NewAttestService exampleParse badInitTxConfig = Fatal ''Incorrect initial transaction id %s''"
    by blast
  moreover from init_tx_checked [of exampleParse exampleConfig] good example_start
  have "NewAttestService exampleParse exampleConfig = Started exampleService"
    by blast
  ultimately show ?thesis using bad good by blast
qed

section \<open>Dropped wallet errors\<close>

subsection \<open>Wallet errors in the \<open>ASTATE_INIT\<close> handlers\<close>

lemma stateInitUnconfirmed_ok:
  assumes "GetAttestationCommitment env txid [False] = (c, None)"
    and "GetRawTransaction env txid = (Some tx, werr)"
  shows "stateInitUnconfirmed env txid s =
     Return (s\<lparr>trace := trace s @
                 [EvGetAttestationCommitment txid [False],
                  Log ''********** found unconfirmed attestation: %s'',
                  EvGetRawTransaction txid],
               attestation := (NewAttestation txid (Some c))\<lparr>Tx := tx\<rparr>,
               state := ASTATE_AWAIT_CONFIRMATION,
               confirmTime := Now env 0\<rparr>)"
  using assms by (simp add: handler_defs Let_def)

lemma stateInitUnspent_ok:
  assumes "NewHashFromStr env (TxID u) = (Some h, perr)"
    and "GetAttestationCommitment env h [] = (c, None)"
    and "GetCommitmentHash c \<noteq> 0"
    and "GetRawTransaction env h = (Some tx, werr1)"
    and "GetTransaction env h = (Some w, werr2)"
    and "UpdateLatestAttestation env
           (UpdateInfo w ((NewAttestation h (Some c))\<lparr>Confirmed := True, Tx := tx\<rparr>)) = None"
  shows "stateInitUnspent env u s =
     Return (s\<lparr>trace := trace s @
                 [EvGetAttestationCommitment h [],
                  Log ''********** found confirmed attestation: %s'',
                  EvGetRawTransaction h, EvGetTransaction h,
                  EvUpdateLatestAttestation
                    (UpdateInfo w ((NewAttestation h (Some c))\<lparr>Confirmed := True, Tx := tx\<rparr>)) None,
                  EvSendConfirmedHash (GetCommitmentHash c)],
               attestation := UpdateInfo w ((NewAttestation h (Some c))\<lparr>Confirmed := True, Tx := tx\<rparr>),
               state := ASTATE_NEXT_COMMITMENT\<rparr>)"
  using assms
  by (simp add: handler_defs Let_def UpdateInfo_def NewAttestation_def CommitmentHash_def)

lemma stateInitUnconfirmed_ERROR:
  assumes "state s \<noteq> ASTATE_ERROR"
    and "stateInitUnconfirmed env txid s = Return s'" and "state s' = ASTATE_ERROR"
  shows "errorState s' \<noteq> None \<and> errorState s' = snd (GetAttestationCommitment env txid [False])"
  using assms
  by (auto simp: handler_defs Let_def split: prod.splits option.splits if_splits)

lemma stateInitUnspent_ERROR:
  assumes "state s \<noteq> ASTATE_ERROR"
    and "stateInitUnspent env u s = Return s'" and "state s' = ASTATE_ERROR"
  shows "errorState s' \<noteq> None \<and>
     (\<exists>h. fst (NewHashFromStr env (TxID u)) = Some h \<and>
        (errorState s' = snd (GetAttestationCommitment env h []) \<or>
         (\<exists>a. EvUpdateLatestAttestation a (errorState s') \<in> set (trace s') \<and>
              errorState s' = UpdateLatestAttestation env a)))"
  using assms
  by (auto simp: handler_defs Let_def split: prod.splits option.splits if_splits)

text \<open>
  A wallet error that comes with a nil result, as the errors of the RPC client do: the
  handler reads the transaction through the nil pointer and panics, with the state and the
  stored error as they were.
\<close>

lemma stateInitUnconfirmed_nil:
  assumes "GetAttestationCommitment env txid [False] = (c, None)"
    and "GetRawTransaction env txid = (None, werr)"
  shows "\<exists>p. stateInitUnconfirmed env txid s = Panic p \<and> state p = state s \<and>
     errorState p = errorState s"
  using assms by (simp add: stateInitUnconfirmed_def fail_defs)

lemma stateInitUnspent_nil:
  assumes "NewHashFromStr env (TxID u) = (Some h, perr)"
    and "GetAttestationCommitment env h [] = (c, None)" and "GetCommitmentHash c \<noteq> 0"
    and "GetRawTransaction env h = (None, werr1)"
  shows "\<exists>p. stateInitUnspent env u s = Panic p \<and> state p = state s \<and>
     errorState p = errorState s"
  using assms by (cases "GetTransaction env h") (simp add: stateInitUnspent_def fail_defs)

text \<open>
  Claim C10. In the two handlers of \<open>ASTATE_INIT\<close> for an unconfirmed transaction and for an
  unspent with a stored commitment, the errors of the wallet's \<open>GetRawTransaction\<close> and
  \<open>GetTransaction\<close> are assigned to the blank identifier, and for every such error the handler
  is still to put the transaction into the attestation and to advance, to
  \<open>ASTATE_AWAIT_CONFIRMATION\<close> or to \<open>ASTATE_NEXT_COMMITMENT\<close>. The code is evaluated here at a
  wallet error as the RPC client returns it, nil with the error \<open>connection refused\<close>. In
  \<open>stateInitUnconfirmed\<close>, for the unconfirmed transaction 9 whose commitment the store
  returns: the handler does not return, the state is still \<open>ASTATE_INIT\<close>, and the
  attestation holds the empty transaction of the new attestation. In \<open>stateInitUnspent\<close>, for
  the unspent \<open>0f\<close> whose commitment the store returns with a non-zero hash: the same. Both
  handlers read the transaction through the nil pointer and panic there, and so does the
  tick of \<open>ASTATE_INIT\<close> that calls them.
\<close>

theorem init_wallet_error_panics:
  "state exampleService = ASTATE_INIT \<and>
   getUnconfirmedTx nilWalletEnv = (True, 9, None) \<and>
   GetAttestationCommitment nilWalletEnv 9 [False] = (\<lparr>root = 0, leaves = []\<rparr>, None) \<and>
   GetRawTransaction nilWalletEnv 9 = (None, Some ''connection refused'') \<and>
   \<not> returned (stateInitUnconfirmed nilWalletEnv 9 exampleService) \<and>
   state (outProc (stateInitUnconfirmed nilWalletEnv 9 exampleService)) = ASTATE_INIT \<and>
   Tx (attestation (outProc (stateInitUnconfirmed nilWalletEnv 9 exampleService))) = MsgTx [] \<and>
   getUnconfirmedTx nilWalletUnspentEnv = (False, 0, None) \<and>
   findLastUnspent nilWalletUnspentEnv = (True, \<lparr>TxID = ''0f'', Vout = 0\<rparr>, None) \<and>
   NewHashFromStr nilWalletUnspentEnv ''0f'' = (Some 15, None) \<and>
   GetAttestationCommitment nilWalletUnspentEnv 15 [] = (\<lparr>root = 3, leaves = [3]\<rparr>, None) \<and>
   GetCommitmentHash \<lparr>root = 3, leaves = [3]\<rparr> \<noteq> 0 \<and>
   GetRawTransaction nilWalletUnspentEnv 15 = (None, Some ''connection refused'') \<and>
   GetTransaction nilWalletUnspentEnv 15 = (None, Some ''connection refused'') \<and>
   \<not> returned (stateInitUnspent nilWalletUnspentEnv \<lparr>TxID = ''0f'', Vout = 0\<rparr> exampleService) \<and>
   state (outProc (stateInitUnspent nilWalletUnspentEnv \<lparr>TxID = ''0f'', Vout = 0\<rparr> exampleService))
     = ASTATE_INIT \<and>
   Tx (attestation (outProc (stateInitUnspent nilWalletUnspentEnv \<lparr>TxID = ''0f'', Vout = 0\<rparr> exampleService)))
     = MsgTx [] \<and>
   \<not> returned (doAttestation nilWalletUnspentEnv exampleService)"
  by code_simp

end
